theory Spec2Isabelle
  imports Main "HOL-Library.Char_ord" "HOL-Library.List_Lexorder" "HOL-Library.Product_Lexorder"
begin

section \<open>The collection query engine of the triple store (collection-query.ts)\<close>

text \<open>
  A shallow embedding of \<^verbatim>\<open>packages/db/src/collection-query.ts\<close>. Asynchronous
  generators are modelled by the list of the items they yield, exceptions by the left
  summand of a sum type, and mutable objects (the fulfilment tracker, the execution
  context, the subscription's closure variables) by values passed in and returned.
\<close>

subsection \<open>JavaScript strings\<close>

text \<open>\<^verbatim>\<open>String.prototype.split\<close> with a one-character separator: the empty string
  splits into one empty part, and a trailing separator leaves a trailing empty part.\<close>

fun splitStr :: "char \<Rightarrow> string \<Rightarrow> string list" where
  "splitStr c [] = [[]]"
| "splitStr c (x # xs) =
     (if x = c then [] # splitStr c xs
      else (case splitStr c xs of [] \<Rightarrow> [[x]] | p # ps \<Rightarrow> (x # p) # ps))"

text \<open>\<^verbatim>\<open>Array.prototype.join\<close> on strings.\<close>

fun joinStr :: "string \<Rightarrow> string list \<Rightarrow> string" where
  "joinStr sep [] = []"
| "joinStr sep [x] = x"
| "joinStr sep (x # y # ys) = x @ sep @ joinStr sep (y # ys)"

subsection \<open>Values, triples, queries\<close>

text \<open>Values of the store; \<^verbatim>\<open>undefined\<close> is \<open>None\<close> of an option type wherever the
  source can meet it.\<close>

datatype tvalue = VNull | VBool bool | VNum int | VStr string

text \<open>A hybrid logical timestamp \<^verbatim>\<open>[tick, clientId]\<close>. Ticks are JavaScript numbers.\<close>

type_synonym timestamp = "int \<times> string"

record triple =
  t_id :: string
  t_attribute :: "tvalue list"
  t_value :: tvalue
  t_timestamp :: timestamp
  t_expired :: bool

text \<open>The operators of a filter statement (\<^verbatim>\<open>Operator\<close> of data-types/base).\<close>

datatype Operator =
  OpEq | OpNeq | OpLt | OpLte | OpGt | OpGte | OpIn | OpNin | OpHas | OpNotHas
  | OpLike | OpNlike | OpIsDefined

datatype direction = ASC | DESC

datatype cardinality = One | Many

datatype groupmod = ModAnd | ModOr

text \<open>
  A query value is a literal or a variable; in the source a variable is a string that
  starts with \<^verbatim>\<open>$\<close>, here it is the constructor \<open>Variable\<close> holding that string
  (so \<^verbatim>\<open>isValueVariable\<close> is the test for this constructor).

  A query and its filters. Optional fields of the source object are options here;
  \<open>q_where\<close>, \<open>q_order\<close>, ... are the fields \<^verbatim>\<open>where\<close>, \<^verbatim>\<open>order\<close>, ...
  The five filter kinds are the ones told apart by \<^verbatim>\<open>isFilterStatement\<close>,
  \<^verbatim>\<open>isFilterGroup\<close>, \<^verbatim>\<open>isSubQueryFilter\<close>, \<^verbatim>\<open>isExistsFilter\<close> and
  \<^verbatim>\<open>isBooleanFilter\<close>. An inclusion is the shorthand \<^verbatim>\<open>true\<close> or \<^verbatim>\<open>null\<close>, a
  nested object of inclusions, or a prepared sub-query with its cardinality.
\<close>

datatype QueryValue = Lit tvalue | Variable string

datatype WhereFilter =
    FilterStatement string Operator QueryValue
  | FilterGroup groupmod "WhereFilter list"
  | SubQueryFilter query
  | ExistsFilter string
  | BooleanFilter bool
and inclusion =
    InclusionShorthand
  | InclusionNested "(string \<times> inclusion) list"
  | RelationSubquery query cardinality
and query =
  Query
    (collectionName: string)
    (q_where: "WhereFilter list option")
    (q_order: "(string \<times> direction) list option")
    (q_limit: "nat option")
    (q_after: "((tvalue \<times> string) \<times> bool) option")
    (q_select: "string list option")
    (q_include: "(string \<times> inclusion) list option")
    (q_vars: "(string \<times> tvalue) list option")

fun isFilterStatement :: "WhereFilter \<Rightarrow> bool" where
  "isFilterStatement (FilterStatement p op v) = True"
| "isFilterStatement f = False"

fun isSubQueryFilter :: "WhereFilter \<Rightarrow> bool" where
  "isSubQueryFilter (SubQueryFilter q) = True"
| "isSubQueryFilter f = False"

fun isFilterGroup :: "WhereFilter \<Rightarrow> bool" where
  "isFilterGroup (FilterGroup m fs) = True"
| "isFilterGroup f = False"

fun isBooleanFilter :: "WhereFilter \<Rightarrow> bool" where
  "isBooleanFilter (BooleanFilter b) = True"
| "isBooleanFilter f = False"

fun isExistsFilter :: "WhereFilter \<Rightarrow> bool" where
  "isExistsFilter (ExistsFilter r) = True"
| "isExistsFilter f = False"

subsection \<open>The schema\<close>

text \<open>
  A data type of the schema carries its \<^verbatim>\<open>type\<close> tag: a scalar (with its type name),
  a set, a record with properties, or a relation (\<^verbatim>\<open>type === 'query'\<close>) with its query
  and cardinality. \<^verbatim>\<open>Models\<close> maps a collection name to its properties
  (\<^verbatim>\<open>schema[collectionName].schema.properties\<close>).
\<close>

datatype DataType =
    ScalarType string
  | SetType
  | RecordType "(string \<times> DataType) list"
  | QueryType query cardinality

type_synonym Models = "(string \<times> (string \<times> DataType) list) list"

fun isRelation :: "DataType \<Rightarrow> bool" where
  "isRelation (QueryType q c) = True"
| "isRelation d = False"

fun isRecord :: "DataType \<Rightarrow> bool" where
  "isRecord (RecordType ps) = True"
| "isRecord d = False"

text \<open>
  Modelled from the spec: the schema traverser (\<^verbatim>\<open>createSchemaTraverser\<close>,
  \<^verbatim>\<open>createSchemaIterator\<close>, \<^verbatim>\<open>getAttributeFromSchema\<close> of schema/schema.js) is not
  among the sources. Per \<section>6.2 it looks a path up in a collection
  (\<^verbatim>\<open>get_attribute(path, collection) \<rightarrow> DataType?\<close>): a key is looked up in the
  properties of the collection or record reached so far, a relation continues in the
  collection its query names, and a scalar or set has no properties.
  \<open>schemaStep\<close> is \<^verbatim>\<open>traverser.get(attr).current\<close>; the position of the traverser is a
  property list, or \<open>None\<close> once the path has left the schema.
\<close>

definition propertiesOf :: "Models \<Rightarrow> DataType \<Rightarrow> (string \<times> DataType) list option" where
  "propertiesOf schema d =
     (case d of
        RecordType ps \<Rightarrow> Some ps
      | QueryType q c \<Rightarrow> map_of schema (collectionName q)
      | _ \<Rightarrow> None)"

definition schemaStep ::
  "Models \<Rightarrow> (string \<times> DataType) list option \<Rightarrow> string
     \<Rightarrow> DataType option \<times> (string \<times> DataType) list option" where
  "schemaStep schema pos attr =
     (case pos of
        None \<Rightarrow> (None, None)
      | Some props \<Rightarrow>
          (case map_of props attr of
             None \<Rightarrow> (None, None)
           | Some d \<Rightarrow> (Some d, propertiesOf schema d)))"

text \<open>The data types met along a path, one per key (\<^verbatim>\<open>createSchemaIterator\<close>).\<close>

fun schemaIterator ::
  "Models \<Rightarrow> (string \<times> DataType) list option \<Rightarrow> string list \<Rightarrow> DataType option list" where
  "schemaIterator schema pos [] = []"
| "schemaIterator schema pos (a # as) =
     (case schemaStep schema pos a of (d, pos') \<Rightarrow> d # schemaIterator schema pos' as)"

definition getAttributeFromSchema :: "string list \<Rightarrow> Models \<Rightarrow> string \<Rightarrow> DataType option" where
  "getAttributeFromSchema path schema collection =
     (case schemaIterator schema (map_of schema collection) path of
        [] \<Rightarrow> None
      | ds \<Rightarrow> last ds)"

subsection \<open>The index selector: \<^verbatim>\<open>findCandidateFilter\<close>\<close>

definition EQUALITY_OPS :: "Operator list" where
  "EQUALITY_OPS = [OpEq]"

definition GT_OPS :: "Operator list" where
  "GT_OPS = [OpGt, OpGte]"

definition LT_OPS :: "Operator list" where
  "LT_OPS = [OpLt, OpLte]"

definition RANGE_OPS :: "Operator list" where
  "RANGE_OPS = GT_OPS @ LT_OPS"

datatype filterType = FT_equality | FT_range

text \<open>The inner function of \<^verbatim>\<open>findCandidateFilter\<close>: a relation or a record is no
  candidate data type, and without a schema there is none.\<close>

definition getCandidateDataTypeFromPath ::
  "string \<Rightarrow> Models option \<Rightarrow> string \<Rightarrow> DataType option" where
  "getCandidateDataTypeFromPath path schema collection =
     (case schema of
        None \<Rightarrow> None
      | Some s \<Rightarrow>
          (case getAttributeFromSchema (splitStr CHR ''.'' path) s collection of
             None \<Rightarrow> None
           | Some d \<Rightarrow> if isRelation d \<or> isRecord d then None else Some d))"

text \<open>The loop \<^verbatim>\<open>for (let i = 0; i < where.length; i++)\<close>, from index \<open>i\<close> on: filters
  that are no statements are skipped, and the first statement whose operator is in
  \<^verbatim>\<open>EQUALITY_OPS\<close> or in \<^verbatim>\<open>RANGE_OPS\<close> is returned with its kind. \<open>None\<close> is the
  result \<^verbatim>\<open>[-1, undefined, undefined]\<close>.\<close>

fun findCandidateLoop ::
  "Models option \<Rightarrow> string \<Rightarrow> WhereFilter list \<Rightarrow> nat \<Rightarrow> (nat \<times> filterType \<times> DataType option) option" where
  "findCandidateLoop schema cn [] i = None"
| "findCandidateLoop schema cn (FilterStatement path op v # fs) i =
     (if op \<in> set EQUALITY_OPS
        then Some (i, FT_equality, getCandidateDataTypeFromPath path schema cn)
      else if op \<in> set RANGE_OPS
        then Some (i, FT_range, getCandidateDataTypeFromPath path schema cn)
      else findCandidateLoop schema cn fs (Suc i))"
| "findCandidateLoop schema cn (f # fs) i = findCandidateLoop schema cn fs (Suc i)"

definition findCandidateFilter ::
  "query \<Rightarrow> Models option \<Rightarrow> (nat \<times> filterType \<times> DataType option) option" where
  "findCandidateFilter q schema =
     (case q_where q of
        None \<Rightarrow> None
      | Some wh \<Rightarrow> findCandidateLoop schema (collectionName q) wh 0)"

subsection \<open>Entity ids\<close>

text \<open>Decimal digits of a natural number; a value as a template literal renders it
  (\<open>jsToString\<close>) and as \<^verbatim>\<open>Array.prototype.join\<close> renders it (\<open>joinText\<close>:
  \<^verbatim>\<open>null\<close> is the empty string there).\<close>

fun natToString :: "nat \<Rightarrow> string" where
  "natToString n =
     (if n < 10 then [char_of (48 + n)]
      else natToString (n div 10) @ [char_of (48 + n mod 10)])"

definition intToString :: "int \<Rightarrow> string" where
  "intToString i = (if i < 0 then CHR ''-'' # natToString (nat (- i)) else natToString (nat i))"

fun jsToString :: "tvalue \<Rightarrow> string" where
  "jsToString VNull = ''null''"
| "jsToString (VBool b) = (if b then ''true'' else ''false'')"
| "jsToString (VNum i) = intToString i"
| "jsToString (VStr s) = s"

fun joinText :: "tvalue \<Rightarrow> string" where
  "joinText VNull = []"
| "joinText v = jsToString v"

text \<open>A statement's value as the tuple value handed to the index: a variable is the
  string it is written as.\<close>

fun queryValueToTuple :: "QueryValue \<Rightarrow> tvalue" where
  "queryValueToTuple (Lit v) = v"
| "queryValueToTuple (Variable s) = VStr s"

text \<open>
  Modelled from the spec: \<^verbatim>\<open>appendCollectionToId\<close>, \<^verbatim>\<open>splitIdParts\<close> and
  \<^verbatim>\<open>stripCollectionFromId\<close> (db-helpers.js) are not among the sources. Per \<section>3 an
  entity id is \<^verbatim>\<open><collection>#<external_id>\<close>.
\<close>

definition appendCollectionToId :: "string \<Rightarrow> string \<Rightarrow> string" where
  "appendCollectionToId collection ext = collection @ ''#'' @ ext"

definition splitIdParts :: "string \<Rightarrow> string \<times> string" where
  "splitIdParts eid =
     (case splitStr CHR ''#'' eid of
        [] \<Rightarrow> ([], [])
      | [c] \<Rightarrow> (c, [])
      | c # e # rest \<Rightarrow> (c, e))"

definition stripCollectionFromId :: "string \<Rightarrow> string" where
  "stripCollectionFromId eid = snd (splitIdParts eid)"

subsection \<open>The index interface and the fulfilment tracker\<close>

text \<open>
  The triple store is outside the engine (\<section>6.1): \<^verbatim>\<open>TripleStoreApi\<close> is a parameter,
  a record of the index reads the engine calls, each returning the triples it streams.
\<close>

record RangeContraints =
  rc_direction :: "direction option"
  greaterThan :: "tvalue option"
  greaterThanOrEqual :: "tvalue option"
  lessThan :: "tvalue option"
  lessThanOrEqual :: "tvalue option"
  greaterThanCursor :: "(tvalue \<times> string) option"
  greaterThanOrEqualCursor :: "(tvalue \<times> string) option"
  lessThanCursor :: "(tvalue \<times> string) option"
  lessThanOrEqualCursor :: "(tvalue \<times> string) option"

definition noConstraints :: RangeContraints where
  "noConstraints =
     \<lparr> rc_direction = None, greaterThan = None, greaterThanOrEqual = None,
       lessThan = None, lessThanOrEqual = None, greaterThanCursor = None,
       greaterThanOrEqualCursor = None, lessThanCursor = None,
       lessThanOrEqualCursor = None \<rparr>"

record TripleStoreApi =
  findByAVE :: "tvalue list \<Rightarrow> tvalue \<Rightarrow> triple list"
  findValuesInRange :: "tvalue list \<Rightarrow> RangeContraints \<Rightarrow> triple list"
  findByEntity :: "string \<Rightarrow> triple list"

record QueryFulfillmentTracker =
  f_where :: "bool list"
  f_order :: "bool list"
  f_after :: bool

record FetchFromStorageOptions =
  o_schema :: "Models option"
  o_skipRules :: bool
  o_skipIndex :: bool

subsection \<open>The access paths\<close>

text \<open>\<^verbatim>\<open>getIdFilterFromQuery\<close>: the first statement \<^verbatim>\<open>['id', '=', v]\<close> of \<^verbatim>\<open>where\<close>
  gives the id; \<open>None\<close> is \<^verbatim>\<open>null\<close>.\<close>

fun isIdEqualityFilter :: "WhereFilter \<Rightarrow> bool" where
  "isIdEqualityFilter (FilterStatement p op v) = (p = ''id'' \<and> op = OpEq)"
| "isIdEqualityFilter f = False"

fun statementValue :: "WhereFilter \<Rightarrow> tvalue" where
  "statementValue (FilterStatement p op v) = queryValueToTuple v"
| "statementValue f = VNull"

definition getIdFilterFromQuery :: "query \<Rightarrow> string option" where
  "getIdFilterFromQuery q =
     (case filter isIdEqualityFilter
             (filter isFilterStatement (case q_where q of None \<Rightarrow> [] | Some wh \<Rightarrow> wh)) of
        [] \<Rightarrow> None
      | f # fs \<Rightarrow> Some (appendCollectionToId (collectionName q) (jsToString (statementValue f))))"

text \<open>\<^verbatim>\<open>findRangeFilter\<close>: the first statement after index \<open>after\<close> on the same path
  whose operator is of the wanted kind; \<open>None\<close> is \<^verbatim>\<open>-1\<close>. \<open>gt\<close> is \<^verbatim>\<open>type === 'gt'\<close>.\<close>

fun findRangeLoop :: "string \<Rightarrow> bool \<Rightarrow> WhereFilter list \<Rightarrow> nat \<Rightarrow> nat option" where
  "findRangeLoop path gt [] i = None"
| "findRangeLoop path gt (FilterStatement p op v # fs) i =
     (if p = path \<and> gt \<and> op \<in> set GT_OPS then Some i
      else if p = path \<and> \<not> gt \<and> op \<in> set LT_OPS then Some i
      else findRangeLoop path gt fs (Suc i))"
| "findRangeLoop path gt (f # fs) i = findRangeLoop path gt fs (Suc i)"

definition findRangeFilter :: "query \<Rightarrow> string \<Rightarrow> nat \<Rightarrow> bool \<Rightarrow> nat option" where
  "findRangeFilter q path after gt =
     (case q_where q of
        None \<Rightarrow> None
      | Some wh \<Rightarrow> findRangeLoop path gt (drop (after + 1) wh) (after + 1))"

fun statementOp :: "WhereFilter \<Rightarrow> Operator option" where
  "statementOp (FilterStatement p op v) = Some op"
| "statementOp f = None"

fun statementPath :: "WhereFilter \<Rightarrow> string" where
  "statementPath (FilterStatement p op v) = p"
| "statementPath f = []"

definition attributeKey :: "string \<Rightarrow> string \<Rightarrow> tvalue list" where
  "attributeKey collection path = VStr collection # map VStr (splitStr CHR ''.'' path)"

text \<open>\<^verbatim>\<open>performRangeScan\<close> for the matched statement and its optional pair:
  \<open>rangeParams\<close> is its constant of that name, the bounds of the read.\<close>

definition rangeParams :: "WhereFilter \<Rightarrow> WhereFilter option \<Rightarrow> RangeContraints" where
  "rangeParams flt rangePair =
     (let gtFilter = (if statementOp flt \<in> Some ` set GT_OPS then Some flt else rangePair);
          ltFilter = (if statementOp flt \<in> Some ` set LT_OPS then Some flt else rangePair);
          bound = (\<lambda>f op. case f of
                      None \<Rightarrow> None
                    | Some g \<Rightarrow> if statementOp g = Some op then Some (statementValue g) else None)
      in noConstraints
           \<lparr> greaterThan := bound gtFilter OpGt,
             greaterThanOrEqual := bound gtFilter OpGte,
             lessThan := bound ltFilter OpLt,
             lessThanOrEqual := bound ltFilter OpLte \<rparr>)"

definition performRangeScan ::
  "TripleStoreApi \<Rightarrow> query \<Rightarrow> WhereFilter \<Rightarrow> WhereFilter option \<Rightarrow> triple list" where
  "performRangeScan tx q flt rangePair =
     findValuesInRange tx (attributeKey (collectionName q) (statementPath flt))
       (rangeParams flt rangePair)"

definition performValueEqualityScan :: "TripleStoreApi \<Rightarrow> query \<Rightarrow> WhereFilter \<Rightarrow> triple list" where
  "performValueEqualityScan tx q flt =
     findByAVE tx (attributeKey (collectionName q) (statementPath flt)) (statementValue flt)"

definition performSetEqualityScan :: "TripleStoreApi \<Rightarrow> query \<Rightarrow> WhereFilter \<Rightarrow> triple list" where
  "performSetEqualityScan tx q flt =
     findByAVE tx (attributeKey (collectionName q) (statementPath flt) @ [statementValue flt])
       (VBool True)"

definition performEqualityScan ::
  "TripleStoreApi \<Rightarrow> query \<Rightarrow> WhereFilter \<Rightarrow> DataType option \<Rightarrow> triple list" where
  "performEqualityScan tx q flt dataType =
     (case dataType of
        Some (QueryType sub c) \<Rightarrow> []
      | Some (RecordType ps) \<Rightarrow> []
      | Some SetType \<Rightarrow> performSetEqualityScan tx q flt
      | _ \<Rightarrow> performValueEqualityScan tx q flt)"

text \<open>\<^verbatim>\<open>getFilterSetForQuery\<close>: the ids of the triples of the scan, one per triple
  (\<^verbatim>\<open>mapGen(scan, (t) => t.id)\<close>), and the tracker with the matched statements marked.
  \<open>None\<close> is \<^verbatim>\<open>undefined\<close>.\<close>

definition getFilterSetForQuery ::
  "TripleStoreApi \<Rightarrow> query \<Rightarrow> Models option \<Rightarrow> QueryFulfillmentTracker
     \<Rightarrow> string list option \<times> QueryFulfillmentTracker" where
  "getFilterSetForQuery tx q schema fulfilled =
     (case findCandidateFilter q schema of
        None \<Rightarrow> (None, fulfilled)
      | Some (filterIdx, filterType, dataType) \<Rightarrow>
          (let wh = (case q_where q of None \<Rightarrow> [] | Some w \<Rightarrow> w);
               filterMatch = wh ! filterIdx
           in case filterType of
                FT_range \<Rightarrow>
                  (let fulfilled1 = fulfilled\<lparr> f_where := (f_where fulfilled)[filterIdx := True] \<rparr>;
                       rangePairIndex =
                         findRangeFilter q (statementPath filterMatch) filterIdx
                           (\<not> (statementOp filterMatch \<in> Some ` set GT_OPS))
                   in case rangePairIndex of
                        None \<Rightarrow>
                          (Some (map t_id (performRangeScan tx q filterMatch None)), fulfilled1)
                      | Some j \<Rightarrow>
                          (Some (map t_id (performRangeScan tx q filterMatch (Some (wh ! j)))),
                           fulfilled1\<lparr> f_where := (f_where fulfilled1)[j := True] \<rparr>))
              | FT_equality \<Rightarrow>
                  (Some (map t_id (performEqualityScan tx q filterMatch dataType)),
                   fulfilled\<lparr> f_where := (f_where fulfilled)[filterIdx := True] \<rparr>)))"

text \<open>
  Modelled from the spec: \<^verbatim>\<open>timestampCompare\<close> (timestamp.js) is not among the sources.
  Per \<section>3 timestamps compare lexicographically, the tick first and the client id as the
  tiebreaker; the result is negative, zero or positive.
\<close>

definition timestampCompare :: "timestamp \<Rightarrow> timestamp \<Rightarrow> int" where
  "timestampCompare a b =
     (if fst a < fst b then - 1 else if fst b < fst a then 1
      else if snd a < snd b then - 1 else if snd b < snd a then 1 else 0)"

text \<open>A JavaScript \<^verbatim>\<open>Set\<close> of strings, in insertion order: \<^verbatim>\<open>add\<close> keeps the place
  of an element that is already in the set, \<^verbatim>\<open>delete\<close> removes it.\<close>

definition setAdd :: "string \<Rightarrow> string list \<Rightarrow> string list" where
  "setAdd x xs = (if x \<in> set xs then xs else xs @ [x])"

definition setDelete :: "string \<Rightarrow> string list \<Rightarrow> string list" where
  "setDelete x xs = filter (\<lambda>y. y \<noteq> x) xs"

text \<open>The loop of \<^verbatim>\<open>getOrderSetForQuery\<close> over the ordered triples: the map
  \<^verbatim>\<open>entityAttributes\<close> remembers one timestamp per entity and attribute, and an entity
  whose attribute comes again with a greater timestamp moves to the end of the set.\<close>

fun orderSetLoop ::
  "triple list \<Rightarrow> (string \<rightharpoonup> timestamp) \<Rightarrow> string list \<Rightarrow> string list" where
  "orderSetLoop [] entityAttributes entityIds = entityIds"
| "orderSetLoop (trip # rest) entityAttributes entityIds =
     (let entityAttrStr = joinStr ''-'' (t_id trip # map joinText (t_attribute trip))
      in case entityAttributes entityAttrStr of
           None \<Rightarrow>
             orderSetLoop rest (entityAttributes(entityAttrStr \<mapsto> t_timestamp trip))
               (setAdd (t_id trip) entityIds)
         | Some currentTimestamp \<Rightarrow>
             if timestampCompare (t_timestamp trip) currentTimestamp > 0
             then orderSetLoop rest (entityAttributes(entityAttrStr \<mapsto> t_timestamp trip))
                    (setAdd (t_id trip) (setDelete (t_id trip) entityIds))
             else orderSetLoop rest entityAttributes entityIds)"

text \<open>The scan of the schema along the first order attribute: it stops at the first
  undefined data type or at the first relation. The result is
  \<open>(firstOrderHasRelation, firstOrderUndefined)\<close>.\<close>

fun firstOrderScan :: "DataType option list \<Rightarrow> bool \<times> bool" where
  "firstOrderScan [] = (False, False)"
| "firstOrderScan (None # ds) = (False, True)"
| "firstOrderScan (Some d # ds) = (if isRelation d then (True, False) else firstOrderScan ds)"

definition getOrderSetForQuery ::
  "TripleStoreApi \<Rightarrow> query \<Rightarrow> Models option \<Rightarrow> QueryFulfillmentTracker
     \<Rightarrow> string list option \<times> QueryFulfillmentTracker" where
  "getOrderSetForQuery tx q schema fulfilled =
     (case q_order q of
        None \<Rightarrow> (None, fulfilled)
      | Some [] \<Rightarrow> (None, fulfilled)
      | Some ((firstOrderAttr, firstOrderDirection) # others) \<Rightarrow>
          (let singleOrder = (others = []);
               attrPath = splitStr CHR ''.'' firstOrderAttr;
               (firstOrderHasRelation, firstOrderUndefined) =
                 (case schema of
                    None \<Rightarrow> (False, False)
                  | Some s \<Rightarrow>
                      firstOrderScan (schemaIterator s (map_of s (collectionName q)) attrPath))
           in if \<not> firstOrderHasRelation \<and> \<not> firstOrderUndefined then
                (let cursor = map_option fst (q_after q);
                     inclusive = (case q_after q of None \<Rightarrow> False | Some a \<Rightarrow> snd a);
                     gtArg = (if singleOrder
                              then (if firstOrderDirection = ASC then cursor else None) else None);
                     ltArg = (if singleOrder
                              then (if firstOrderDirection = DESC then cursor else None) else None);
                     fulfilled1 = fulfilled
                       \<lparr> f_order := (f_order fulfilled)[0 := True],
                         f_after := (if q_after q \<noteq> None then gtArg \<noteq> None \<or> ltArg \<noteq> None
                                     else True) \<rparr>;
                     rangeParams = noConstraints
                       \<lparr> rc_direction := Some firstOrderDirection,
                         greaterThanCursor := (if inclusive then None else gtArg),
                         greaterThanOrEqualCursor := (if inclusive then gtArg else None),
                         lessThanCursor := (if inclusive then None else ltArg),
                         lessThanOrEqualCursor := (if inclusive then ltArg else None) \<rparr>;
                     orderedTriples =
                       findValuesInRange tx (VStr (collectionName q) # map VStr attrPath) rangeParams
                 in (Some (orderSetLoop orderedTriples Map.empty []), fulfilled1))
              else (None, fulfilled)))"

definition getCollectionIds :: "TripleStoreApi \<Rightarrow> query \<Rightarrow> string list" where
  "getCollectionIds tx q = map t_id (findByAVE tx [VStr ''_collection''] (VStr (collectionName q)))"

text \<open>\<^verbatim>\<open>getCandidateEntityIds\<close>: the candidate ids, in the order the pipeline reads them,
  and the tracker. The paths are tried in the source's order: id point, filter scan
  (equality or range), order scan, and the scan of the collection.\<close>

definition initialFulfilled :: "query \<Rightarrow> QueryFulfillmentTracker" where
  "initialFulfilled q =
     \<lparr> f_where = (case q_where q of None \<Rightarrow> [] | Some wh \<Rightarrow> replicate (length wh) False),
       f_order = (case q_order q of None \<Rightarrow> [] | Some os \<Rightarrow> replicate (length os) False),
       f_after = (q_after q = None) \<rparr>"

definition getCandidateEntityIds ::
  "TripleStoreApi \<Rightarrow> query \<Rightarrow> FetchFromStorageOptions \<Rightarrow> string list \<times> QueryFulfillmentTracker" where
  "getCandidateEntityIds tx q options =
     (let fulfilled = initialFulfilled q
      in if \<not> o_skipIndex options then
           (case getIdFilterFromQuery q of
              Some entityId \<Rightarrow> ([entityId], fulfilled)
            | None \<Rightarrow>
                (case getFilterSetForQuery tx q (o_schema options) fulfilled of
                   (Some filterSet, fulfilled1) \<Rightarrow> (filterSet, fulfilled1)
                 | (None, fulfilled1) \<Rightarrow>
                     (case getOrderSetForQuery tx q (o_schema options) fulfilled1 of
                        (Some orderSet, fulfilled2) \<Rightarrow> (orderSet, fulfilled2)
                      | (None, fulfilled2) \<Rightarrow> (getCollectionIds tx q, fulfilled2))))
         else (getCollectionIds tx q, fulfilled))"

subsection \<open>Errors, entities and the pipeline items\<close>

text \<open>The errors the engine raises: \<^verbatim>\<open>TriplitError\<close> with its message and
  \<^verbatim>\<open>QueryNotPreparedError\<close> are thrown in collection-query.ts, \<open>TypeError\<close> is
  JavaScript's own (a property of \<^verbatim>\<open>undefined\<close> is read), and the others are the
  classes named in \<section>7.\<close>

datatype error =
    TriplitError string
  | QueryNotPreparedError string
  | InvalidFilterError
  | VariableRelationCardinalityError
  | UnknownRelationError
  | ReverseOperatorError
  | InvalidSchemaItemError
  | TypeError

text \<open>A timestamped entity: a leaf is the pair \<^verbatim>\<open>[value, timestamp]\<close>, a record is
  an object of such. An entity is the property list of its root object.\<close>

datatype tsval = TsLeaf tvalue timestamp | TsObj "(string \<times> tsval) list"

type_synonym entity = "(string \<times> tsval) list"

record QueryPipelineData =
  p_entity :: "entity option"
  p_triples :: "triple list"
  p_relationships :: "(string \<times> triple list) list"
  p_existsFilterTriples :: "triple list"

text \<open>\<^verbatim>\<open>x?.[0]\<close> on what a property read gave: the value of a leaf; an object has
  no element \<^verbatim>\<open>0\<close>.\<close>

fun leafValue :: "tsval option \<Rightarrow> tvalue option" where
  "leafValue (Some (TsLeaf v ts)) = Some v"
| "leafValue x = None"

text \<open>\<^verbatim>\<open>getPropertyFromPath\<close>: \<^verbatim>\<open>path.reduce((acc, key) => acc[key], entity)\<close>.
  Reading a property of \<^verbatim>\<open>undefined\<close> raises; a leaf (an array of two) has no
  property of a path's name.\<close>

fun getPropertyFromPath :: "tsval option \<Rightarrow> string list \<Rightarrow> error + tsval option" where
  "getPropertyFromPath acc [] = Inr acc"
| "getPropertyFromPath None (k # ks) = Inl TypeError"
| "getPropertyFromPath (Some (TsObj kvs)) (k # ks) = getPropertyFromPath (map_of kvs k) ks"
| "getPropertyFromPath (Some (TsLeaf v ts)) (k # ks) = getPropertyFromPath None ks"

subsection \<open>The filter stage: \<^verbatim>\<open>ApplyFilters\<close>\<close>

text \<open>
  \<^verbatim>\<open>getFilterPriorityOrder\<close> and \<^verbatim>\<open>satisfiesFilter\<close> (query/filters.js) are not among
  the sources: both are parameters. \<open>getFilterPriorityOrder\<close> gets the query, as in the
  call \<^verbatim>\<open>getFilterPriorityOrder(query)\<close>; \<open>satisfiesFilter\<close> gets the query, the
  pipeline item and \<^verbatim>\<open>where[filterIdx]\<close> (\<open>None\<close> when the index is out of range) and
  returns a boolean or raises.

  The function \<^verbatim>\<open>ApplyFilters\<close> returns is applied to one pipeline item, and
  returns a boolean or raises what \<open>satisfiesFilter\<close> raised.
\<close>

text \<open>\<^verbatim>\<open>where[filterIdx]\<close>: \<open>None\<close> is \<^verbatim>\<open>undefined\<close>, what an array gives beyond its
  end.\<close>

definition clauseAt :: "WhereFilter list \<Rightarrow> nat \<Rightarrow> WhereFilter option" where
  "clauseAt wh filterIdx = (if filterIdx < length wh then Some (wh ! filterIdx) else None)"

fun applyFiltersLoop ::
  "(WhereFilter option \<Rightarrow> error + bool) \<Rightarrow> WhereFilter list \<Rightarrow> nat list \<Rightarrow> error + bool" where
  "applyFiltersLoop sat wh [] = Inr True"
| "applyFiltersLoop sat wh (filterIdx # idxs) =
     (case sat (clauseAt wh filterIdx) of
        Inl e \<Rightarrow> Inl e
      | Inr satisfied \<Rightarrow>
          if \<not> satisfied then Inr False else applyFiltersLoop sat wh idxs)"

definition ApplyFilters ::
  "(query \<Rightarrow> nat list)
     \<Rightarrow> (query \<Rightarrow> QueryPipelineData \<Rightarrow> WhereFilter option \<Rightarrow> error + bool)
     \<Rightarrow> query \<Rightarrow> string \<times> QueryPipelineData \<Rightarrow> error + bool" where
  "ApplyFilters getFilterPriorityOrder satisfiesFilter q item =
     (let filterOrder = getFilterPriorityOrder q
      in case p_entity (snd item) of
           None \<Rightarrow> Inr False
         | Some entity \<Rightarrow>
             (case q_where q of
                None \<Rightarrow> Inr True
              | Some wh \<Rightarrow> applyFiltersLoop (satisfiesFilter q (snd item)) wh filterOrder))"

subsection \<open>The cursor stage: \<^verbatim>\<open>FilterAfterCursor\<close>\<close>

text \<open>
  \<^verbatim>\<open>encodeValue\<close> belongs to the tuple database, outside the engine: it is the
  parameter \<open>enc\<close>, a function into a linear order, the order of the encoded strings.
  It is applied to a value, to \<^verbatim>\<open>undefined\<close>, or to the tuple database's sentinel
  \<^verbatim>\<open>MIN\<close>.
\<close>

datatype encodable = MIN_value | Undefined | Value tvalue

fun entityValue :: "tvalue option \<Rightarrow> encodable" where
  "entityValue None = Undefined"
| "entityValue (Some v) = Value v"

text \<open>The closure of \<^verbatim>\<open>FilterAfterCursor\<close> keeps three flags between the items; the
  step takes and returns them.\<close>

record cursorFlags =
  cursorValueReached :: bool
  cursorValuePassed :: bool
  idReached :: bool

definition initialCursorFlags :: cursorFlags where
  "initialCursorFlags =
     \<lparr> cursorValueReached = False, cursorValuePassed = False, idReached = False \<rparr>"

definition FilterAfterCursor ::
  "(encodable \<Rightarrow> 'e::linorder) \<Rightarrow> query \<Rightarrow> cursorFlags \<Rightarrow> string \<times> QueryPipelineData
     \<Rightarrow> (error + bool) \<times> cursorFlags" where
  "FilterAfterCursor enc q flags item =
     (case q_after q of
        None \<Rightarrow> (Inr True, flags)
      | Some (cursor, inclusive) \<Rightarrow>
          if (cursorValueReached flags \<and> idReached flags) \<or> cursorValuePassed flags
          then (Inr True, flags)
          else
            (let (orderAttr, orderDir) =
                   (case q_order q of
                      Some (o1 # os) \<Rightarrow> o1
                    | _ \<Rightarrow> (''id'', ASC))
             in case p_entity (snd item) of
                  None \<Rightarrow> (Inl TypeError, flags)
                | Some entity \<Rightarrow>
                    (case map_of entity orderAttr of
                       None \<Rightarrow> (Inl TypeError, flags)
                     | Some prop \<Rightarrow>
                         (let entityVal = leafValue (Some prop);
                              (cursorVal, cursorId) = cursor;
                              encodedCursorVal = enc (Value cursorVal);
                              encodedEntityVal = enc (entityValue entityVal);
                              flags1 =
                                (if encodedEntityVal = encodedCursorVal then
                                   (if appendCollectionToId (collectionName q) (fst item) = cursorId
                                    then flags\<lparr> cursorValueReached := True, idReached := True \<rparr>
                                    else flags\<lparr> cursorValueReached := True \<rparr>)
                                 else if (if orderDir = ASC
                                          then encodedCursorVal < encodedEntityVal
                                          else encodedEntityVal < encodedCursorVal)
                                 then flags\<lparr> cursorValuePassed := True \<rparr>
                                 else flags)
                          in (Inr (inclusive \<and>
                                     ((cursorValueReached flags1 \<and> idReached flags1)
                                        \<or> cursorValuePassed flags1)),
                              flags1)))))"

text \<open>The filter stage of the pipeline with this predicate: the items in stream order,
  the flags carried from one to the next; an error ends the run.\<close>

fun filterAfterCursorRun ::
  "(encodable \<Rightarrow> 'e::linorder) \<Rightarrow> query \<Rightarrow> cursorFlags \<Rightarrow> (string \<times> QueryPipelineData) list
     \<Rightarrow> error + (string \<times> QueryPipelineData) list" where
  "filterAfterCursorRun enc q flags [] = Inr []"
| "filterAfterCursorRun enc q flags (item # items) =
     (case FilterAfterCursor enc q flags item of
        (Inl e, flags1) \<Rightarrow> Inl e
      | (Inr keep, flags1) \<Rightarrow>
          (case filterAfterCursorRun enc q flags1 items of
             Inl e \<Rightarrow> Inl e
           | Inr kept \<Rightarrow> Inr (if keep then item # kept else kept)))"

subsection \<open>Sorting: \<^verbatim>\<open>querySorter\<close> and \<^verbatim>\<open>sortEntities\<close>\<close>

text \<open>\<^verbatim>\<open>valueA ?? MIN\<close>: \<^verbatim>\<open>undefined\<close> and \<^verbatim>\<open>null\<close> become \<^verbatim>\<open>MIN\<close>.\<close>

fun orMin :: "tvalue option \<Rightarrow> encodable" where
  "orMin None = MIN_value"
| "orMin (Some VNull) = MIN_value"
| "orMin (Some v) = Value v"

text \<open>The loop of the comparator over the order clauses. The entities are
  \<^verbatim>\<open>any\<close> in the source; \<open>None\<close> is \<^verbatim>\<open>undefined\<close>.\<close>

fun querySorterLoop ::
  "(encodable \<Rightarrow> 'e::linorder) \<Rightarrow> (string \<times> direction) list \<Rightarrow> entity option \<Rightarrow> entity option
     \<Rightarrow> error + int" where
  "querySorterLoop enc [] a b = Inr 0"
| "querySorterLoop enc ((prop, dir) # clauses) a b =
     (case getPropertyFromPath (map_option TsObj a) (splitStr CHR ''.'' prop) of
        Inl e \<Rightarrow> Inl e
      | Inr pa \<Rightarrow>
          (case getPropertyFromPath (map_option TsObj b) (splitStr CHR ''.'' prop) of
             Inl e \<Rightarrow> Inl e
           | Inr pb \<Rightarrow>
               (let encodedA = enc (orMin (leafValue pa));
                    encodedB = enc (orMin (leafValue pb));
                    direction = (if encodedA < encodedB then - 1
                                 else if encodedB < encodedA then 1 else 0 :: int)
                in if direction \<noteq> 0
                   then Inr (if dir = ASC then direction else direction * - 1)
                   else querySorterLoop enc clauses a b)))"

text \<open>\<^verbatim>\<open>query.order!\<close>: iterating \<^verbatim>\<open>undefined\<close> raises.\<close>

definition querySorter ::
  "(encodable \<Rightarrow> 'e::linorder) \<Rightarrow> query \<Rightarrow> entity option \<Rightarrow> entity option \<Rightarrow> error + int" where
  "querySorter enc q a b =
     (case q_order q of
        None \<Rightarrow> Inl TypeError
      | Some order \<Rightarrow> querySorterLoop enc order a b)"

text \<open>\<^verbatim>\<open>Array.prototype.sort\<close> with a comparator: the language requires it to be
  stable. It is modelled as insertion sort: an element goes before the first element
  that does not compare less than it, so equal elements keep their order; an error of
  the comparator ends the sort.\<close>

fun sortInsert :: "('a \<Rightarrow> 'a \<Rightarrow> error + int) \<Rightarrow> 'a \<Rightarrow> 'a list \<Rightarrow> error + 'a list" where
  "sortInsert cmp x [] = Inr [x]"
| "sortInsert cmp x (y # ys) =
     (case cmp x y of
        Inl e \<Rightarrow> Inl e
      | Inr c \<Rightarrow>
          if c \<le> 0 then Inr (x # y # ys)
          else (case sortInsert cmp x ys of Inl e \<Rightarrow> Inl e | Inr r \<Rightarrow> Inr (y # r)))"

fun arraySort :: "('a \<Rightarrow> 'a \<Rightarrow> error + int) \<Rightarrow> 'a list \<Rightarrow> error + 'a list" where
  "arraySort cmp [] = Inr []"
| "arraySort cmp (x # xs) =
     (case arraySort cmp xs of Inl e \<Rightarrow> Inl e | Inr r \<Rightarrow> sortInsert cmp x r)"

definition sortEntities ::
  "(encodable \<Rightarrow> 'e::linorder) \<Rightarrow> query \<Rightarrow> (string \<times> entity) list \<Rightarrow> error + (string \<times> entity) list" where
  "sortEntities enc q entities =
     (if q_order q = None then Inr entities
      else arraySort (\<lambda>a b. querySorter enc q (Some (snd a)) (Some (snd b))) entities)"

subsection \<open>Variables and operator reversal\<close>

text \<open>\<^verbatim>\<open>parseInt\<close> in base ten: leading blanks and a sign are skipped, the digits that
  follow are read, and \<open>None\<close> is \<^verbatim>\<open>NaN\<close> (no digit). A radix prefix is not read.\<close>

definition isDigit :: "char \<Rightarrow> bool" where
  "isDigit c = (48 \<le> (of_char c :: nat) \<and> (of_char c :: nat) \<le> 57)"

definition digitsValue :: "string \<Rightarrow> nat" where
  "digitsValue ds = foldl (\<lambda>acc c. 10 * acc + ((of_char c :: nat) - 48)) 0 ds"

definition parseInt :: "string \<Rightarrow> int option" where
  "parseInt s =
     (let s1 = dropWhile (\<lambda>c. c = CHR '' '') s;
          negative = (case s1 of c # r \<Rightarrow> c = CHR ''-'' | [] \<Rightarrow> False);
          s2 = (case s1 of c # r \<Rightarrow> if c = CHR ''-'' \<or> c = CHR ''+'' then r else s1 | [] \<Rightarrow> s1);
          ds = takeWhile isDigit s2
      in if ds = [] then None
         else Some (if negative then - int (digitsValue ds) else int (digitsValue ds)))"

text \<open>
  Modelled from the spec: \<^verbatim>\<open>getVariableComponents\<close>, \<^verbatim>\<open>isValueReferentialVariable\<close>
  and \<^verbatim>\<open>createVariable\<close> (db-helpers.js) are not among the sources. Per \<section>4.5 a
  variable is the text \<^verbatim>\<open>$<scope>.<path>\<close>, an unscoped name has no scope, and the
  scope \<^verbatim>\<open><N>\<close> is the Nth ancestor frame; per \<section>4.8 a referential variable is one
  of an ancestor frame (\<^verbatim>\<open>$N.path\<close>).
\<close>

definition getVariableComponents :: "string \<Rightarrow> string option \<times> string" where
  "getVariableComponents variable =
     (case splitStr CHR ''.'' (drop 1 variable) of
        [] \<Rightarrow> (None, [])
      | [k] \<Rightarrow> (None, k)
      | scope # ks \<Rightarrow> (Some scope, joinStr ''.'' ks))"

definition createVariable :: "string option \<Rightarrow> string \<Rightarrow> string" where
  "createVariable scope path =
     (case scope of None \<Rightarrow> ''$'' @ path | Some s \<Rightarrow> ''$'' @ s @ ''.'' @ path)"

fun isValueVariable :: "QueryValue \<Rightarrow> bool" where
  "isValueVariable (Variable s) = True"
| "isValueVariable (Lit v) = False"

fun isValueReferentialVariable :: "QueryValue \<Rightarrow> bool" where
  "isValueReferentialVariable (Variable s) =
     (case fst (getVariableComponents s) of
        None \<Rightarrow> False
      | Some scope \<Rightarrow> parseInt scope \<noteq> None)"
| "isValueReferentialVariable (Lit v) = False"

text \<open>The table \<^verbatim>\<open>REVERSE_OPERATOR_MAPPINGS\<close>; \<open>None\<close> is \<^verbatim>\<open>undefined\<close>, what
  the object gives for a key it does not have.\<close>

fun REVERSE_OPERATOR_MAPPINGS :: "Operator \<Rightarrow> Operator option" where
  "REVERSE_OPERATOR_MAPPINGS OpEq = Some OpEq"
| "REVERSE_OPERATOR_MAPPINGS OpNeq = Some OpNeq"
| "REVERSE_OPERATOR_MAPPINGS OpLt = Some OpGt"
| "REVERSE_OPERATOR_MAPPINGS OpGt = Some OpLt"
| "REVERSE_OPERATOR_MAPPINGS OpLte = Some OpGte"
| "REVERSE_OPERATOR_MAPPINGS OpGte = Some OpLte"
| "REVERSE_OPERATOR_MAPPINGS OpIn = Some OpHas"
| "REVERSE_OPERATOR_MAPPINGS OpNin = Some OpNotHas"
| "REVERSE_OPERATOR_MAPPINGS OpHas = Some OpIn"
| "REVERSE_OPERATOR_MAPPINGS OpNotHas = Some OpNin"
| "REVERSE_OPERATOR_MAPPINGS op = None"

fun queryValueText :: "QueryValue \<Rightarrow> string" where
  "queryValueText (Lit v) = jsToString v"
| "queryValueText (Variable s) = s"

text \<open>\<^verbatim>\<open>reverseRelationFilter\<close> on the statement \<^verbatim>\<open>[path, op, value]\<close>. The result is
  the array \<^verbatim>\<open>[key, REVERSE_OPERATOR_MAPPINGS[op], createVariable(scope, path)]\<close>, whose
  second element is \<^verbatim>\<open>undefined\<close> when the table has no entry for \<open>op\<close>.\<close>

definition reverseRelationFilter ::
  "string \<times> Operator \<times> QueryValue \<Rightarrow> error + (string \<times> Operator option \<times> QueryValue)" where
  "reverseRelationFilter flt =
     (case flt of (path, op, v) \<Rightarrow>
        if \<not> isValueReferentialVariable v
        then Inl (TriplitError
                    (''Expected filter value to be a relation variable, but got '' @ queryValueText v))
        else (case getVariableComponents (queryValueText v) of
                (scope, key) \<Rightarrow>
                  Inr (key, REVERSE_OPERATOR_MAPPINGS op, Variable (createVariable scope path))))"

subsection \<open>The execution context and \<^verbatim>\<open>loadSubquery\<close>\<close>

text \<open>Plain JavaScript values: the frames of the stack and the variables are objects
  of these. An object is its property list, in insertion order.\<close>

datatype plain = PUndefined | PVal tvalue | PObj "(string \<times> plain) list"

type_synonym frame = "(string \<times> plain) list"

text \<open>\<^verbatim>\<open>obj[k] = v\<close>, \<^verbatim>\<open>delete obj[k]\<close> and the spread \<^verbatim>\<open>{...a, ...b}\<close>.\<close>

fun objSet :: "string \<Rightarrow> 'a \<Rightarrow> (string \<times> 'a) list \<Rightarrow> (string \<times> 'a) list" where
  "objSet k v [] = [(k, v)]"
| "objSet k v ((k', v') # kvs) = (if k' = k then (k, v) # kvs else (k', v') # objSet k v kvs)"

definition objDelete :: "string \<Rightarrow> (string \<times> 'a) list \<Rightarrow> (string \<times> 'a) list" where
  "objDelete k kvs = filter (\<lambda>kv. fst kv \<noteq> k) kvs"

definition objSpread :: "(string \<times> 'a) list \<Rightarrow> (string \<times> 'a) list \<Rightarrow> (string \<times> 'a) list" where
  "objSpread a b = foldl (\<lambda>acc kv. objSet (fst kv) (snd kv) acc) a b"

record FetchExecutionContext =
  queriedDataStack :: "frame list"

definition initialFetchExecutionContext :: FetchExecutionContext where
  "initialFetchExecutionContext = \<lparr> queriedDataStack = [] \<rparr>"

text \<open>The result of \<^verbatim>\<open>fetch\<close>: the entities in result order and the triples per
  entity; \<^verbatim>\<open>fetchOne\<close> gives one entity or \<^verbatim>\<open>null\<close>.\<close>

record FetchResult =
  results :: "(string \<times> entity) list"
  triples :: "(string \<times> triple list) list"

datatype subqueryResults = ManyResults "(string \<times> entity) list" | OneResult "entity option"

record SubqueryResult =
  sq_results :: subqueryResults
  sq_triples :: "(string \<times> triple list) list"

text \<open>The parent of a sub-query is \<^verbatim>\<open>any\<close> in the source: a timestamped entity of
  the pipeline, or a frame of the stack (from \<^verbatim>\<open>loadRelationshipsIntoContextFromVariable\<close>).\<close>

datatype parentEntity = TimestampedEntity entity | PlainEntity frame

text \<open>
  Modelled from the spec: \<^verbatim>\<open>timestampedObjectToPlainObject\<close> (utils.js) is not among the
  sources; per \<section>4.9 it strips the timestamps, and a plain value stays as it is.
\<close>

fun stripTimestamps :: "tsval \<Rightarrow> plain" where
  "stripTimestamps (TsLeaf v ts) = PVal v"
| "stripTimestamps (TsObj kvs) = PObj (map (\<lambda>kv. (fst kv, stripTimestamps (snd kv))) kvs)"

fun timestampedObjectToPlainObject :: "parentEntity \<Rightarrow> frame" where
  "timestampedObjectToPlainObject (TimestampedEntity e) =
     map (\<lambda>kv. (fst kv, stripTimestamps (snd kv))) e"
| "timestampedObjectToPlainObject (PlainEntity f) = f"

text \<open>
  The collaborators of the engine that are no part of collection-query.ts:
  \<^verbatim>\<open>prepareQuery\<close> (query/prepare.js), which may raise; the schema's value coercion
  \<^verbatim>\<open>convertDBValueToJS\<close>; and \<^verbatim>\<open>fetch\<close> itself where \<^verbatim>\<open>loadSubquery\<close> and the
  subscription call it. \<^verbatim>\<open>fetch\<close> and \<^verbatim>\<open>loadSubquery\<close> call each other; the
  recursion is cut at \<^verbatim>\<open>fetch\<close>, which is any function of the query, the execution
  context and the options that returns a result or raises, together with the context
  as it leaves it (the context is one mutable object shared by all calls).
  For the subscription there are also the materializer (\<^verbatim>\<open>new Entity()\<close> with
  \<^verbatim>\<open>updateEntity\<close>, giving the entity's data and the values of its triple map), the
  statement tests \<^verbatim>\<open>satisfiesSetFilter\<close> and \<^verbatim>\<open>satisfiesRegisterFilter\<close>
  (query/filters.js), and JavaScript's relational comparison of two values
  (\<open>isLessThan a b\<close> is true, false or undefined; \<^verbatim>\<open>a > b\<close> holds when
  \<open>isLessThan b a\<close> is true, \<^verbatim>\<open>a >= b\<close> when \<open>isLessThan a b\<close> is false).
\<close>

record collaborators =
  prepareQuery :: "query \<Rightarrow> Models option \<Rightarrow> bool \<Rightarrow> error + query"
  convertDBValueToJS :: "Models \<Rightarrow> string \<Rightarrow> frame \<Rightarrow> frame"
  fetch ::
    "query \<Rightarrow> FetchExecutionContext \<Rightarrow> FetchFromStorageOptions
       \<Rightarrow> (error + FetchResult) \<times> FetchExecutionContext"
  updateEntity :: "triple list \<Rightarrow> entity \<times> triple list"
  satisfiesSetFilter :: "entity \<Rightarrow> string \<Rightarrow> Operator \<Rightarrow> QueryValue \<Rightarrow> bool"
  satisfiesRegisterFilter :: "entity \<Rightarrow> string \<Rightarrow> Operator \<Rightarrow> QueryValue \<Rightarrow> bool"
  isLessThan :: "tvalue option \<Rightarrow> tvalue option \<Rightarrow> bool option"

fun setLimit :: "query \<Rightarrow> nat option \<Rightarrow> query" where
  "setLimit (Query cn w ord l a s i v) l' = Query cn w ord l' a s i v"

fun setVars :: "query \<Rightarrow> (string \<times> tvalue) list option \<Rightarrow> query" where
  "setVars (Query cn w ord l a s i v) v' = Query cn w ord l a s i v'"

fun setInclude :: "query \<Rightarrow> (string \<times> inclusion) list option \<Rightarrow> query" where
  "setInclude (Query cn w ord l a s i v) i' = Query cn w ord l a s i' v"

fun setAfter :: "query \<Rightarrow> ((tvalue \<times> string) \<times> bool) option \<Rightarrow> query" where
  "setAfter (Query cn w ord l a s i v) a' = Query cn w ord l a' s i v"

text \<open>\<^verbatim>\<open>fetchOne\<close>: the query with \<^verbatim>\<open>limit: 1\<close>, and the first result or \<^verbatim>\<open>null\<close>.\<close>

definition fetchOne ::
  "collaborators \<Rightarrow> query \<Rightarrow> FetchExecutionContext \<Rightarrow> FetchFromStorageOptions
     \<Rightarrow> (error + SubqueryResult) \<times> FetchExecutionContext" where
  "fetchOne deps q ctx options =
     (case fetch deps (setLimit q (Some 1)) ctx options of
        (Inl e, ctx1) \<Rightarrow> (Inl e, ctx1)
      | (Inr r, ctx1) \<Rightarrow>
          (Inr \<lparr> sq_results = OneResult (case results r of [] \<Rightarrow> None | x # xs \<Rightarrow> Some (snd x)),
                 sq_triples = triples r \<rparr>, ctx1))"

definition convertEntityToJS ::
  "collaborators \<Rightarrow> parentEntity \<Rightarrow> Models option \<Rightarrow> string \<Rightarrow> frame" where
  "convertEntityToJS deps e schema collection =
     (let untimestampedEntity = objDelete ''_collection'' (timestampedObjectToPlainObject e)
      in case schema of
           None \<Rightarrow> untimestampedEntity
         | Some s \<Rightarrow>
             (case map_of s collection of
                None \<Rightarrow> untimestampedEntity
              | Some props \<Rightarrow> convertDBValueToJS deps s collection untimestampedEntity))"

text \<open>\<^verbatim>\<open>extractSubqueryVarsFromEntity\<close>: with a schema, every property of the
  collection that is no relation is a key of the frame (\<^verbatim>\<open>undefined\<close> when the entity
  has no value for it); reading \<^verbatim>\<open>.properties\<close> of a collection the schema does not
  have raises.\<close>

definition extractSubqueryVarsFromEntity ::
  "collaborators \<Rightarrow> parentEntity \<Rightarrow> Models option \<Rightarrow> string \<Rightarrow> error + frame" where
  "extractSubqueryVarsFromEntity deps e schema collection =
     (case schema of
        Some s \<Rightarrow>
          (case map_of s collection of
             None \<Rightarrow> Inl TypeError
           | Some props \<Rightarrow>
               (let emptyObj =
                      foldl (\<lambda>v pd. if isRelation (snd pd) then v else objSet (fst pd) PUndefined v)
                        [] props
                in Inr (objSet ''_collection'' (PVal (VStr collection))
                          (objSpread emptyObj (convertEntityToJS deps e schema collection)))))
      | None \<Rightarrow>
          Inr (objSet ''_collection'' (PVal (VStr collection)) (timestampedObjectToPlainObject e)))"

text \<open>
  \<^verbatim>\<open>loadSubquery\<close>. The frame is pushed (the stack becomes a new array with the frame
  at its end), the sub-query is prepared and fetched, and the last frame is popped
  (\<^verbatim>\<open>pop\<close> on the stack as the fetch left it) before the result is returned. The
  source has no \<^verbatim>\<open>try\<close>: when a call raises, the statements after it do not run.
\<close>

definition loadSubquery ::
  "collaborators \<Rightarrow> query \<Rightarrow> query \<Rightarrow> cardinality \<Rightarrow> FetchExecutionContext
     \<Rightarrow> FetchFromStorageOptions \<Rightarrow> parentEntity
     \<Rightarrow> (error + SubqueryResult) \<times> FetchExecutionContext" where
  "loadSubquery deps parentQuery subquery cardinality executionContext options e =
     (case extractSubqueryVarsFromEntity deps e (o_schema options) (collectionName parentQuery) of
        Inl err \<Rightarrow> (Inl err, executionContext)
      | Inr entityVars \<Rightarrow>
          (let ctx1 = executionContext
                 \<lparr> queriedDataStack := queriedDataStack executionContext @ [entityVars] \<rparr>;
               fullSubquery = setVars subquery
                 (Some (objSpread (case q_vars parentQuery of None \<Rightarrow> [] | Some vs \<Rightarrow> vs)
                                  (case q_vars subquery of None \<Rightarrow> [] | Some vs \<Rightarrow> vs)))
           in case prepareQuery deps fullSubquery (o_schema options) (o_skipRules options) of
                Inl err \<Rightarrow> (Inl err, ctx1)
              | Inr prepared \<Rightarrow>
                  (case (if cardinality = One then fetchOne deps prepared ctx1 options
                         else (case fetch deps prepared ctx1 options of
                                 (Inl err, ctx2) \<Rightarrow> (Inl err, ctx2)
                               | (Inr r, ctx2) \<Rightarrow>
                                   (Inr \<lparr> sq_results = ManyResults (results r),
                                          sq_triples = triples r \<rparr>, ctx2))) of
                     (Inl err, ctx2) \<Rightarrow> (Inl err, ctx2)
                   | (Inr result, ctx2) \<Rightarrow>
                       (Inr result,
                        ctx2\<lparr> queriedDataStack := butlast (queriedDataStack ctx2) \<rparr>))))"

subsection \<open>Relations in variables: \<^verbatim>\<open>loadRelationshipsIntoContextFromVariable\<close>\<close>

text \<open>\<^verbatim>\<open>getRelationsFromIdentifier\<close>: the relations met along the identifier, each
  under the path that leads to it, in the order they are met. \<open>pos\<close> is the position
  of the schema traverser and \<open>relationPath\<close> the keys walked so far.\<close>

fun relationsLoop ::
  "Models \<Rightarrow> (string \<times> DataType) list option \<Rightarrow> string list \<Rightarrow> string list
     \<Rightarrow> (string \<times> query \<times> cardinality) list" where
  "relationsLoop schema pos relationPath [] = []"
| "relationsLoop schema pos relationPath (attr # attrs) =
     (case schemaStep schema pos attr of
        (Some (QueryType rq c), pos') \<Rightarrow>
          (joinStr ''.'' (relationPath @ [attr]), rq, c)
            # relationsLoop schema pos' (relationPath @ [attr]) attrs
      | (d, pos') \<Rightarrow> relationsLoop schema pos' (relationPath @ [attr]) attrs)"

definition getRelationsFromIdentifier ::
  "string \<Rightarrow> Models \<Rightarrow> string option \<Rightarrow> (string \<times> query \<times> cardinality) list" where
  "getRelationsFromIdentifier identifier schema collection =
     relationsLoop schema (case collection of None \<Rightarrow> None | Some c \<Rightarrow> map_of schema c) []
       (splitStr CHR ''.'' identifier)"

definition getRelationPathsFromIdentifier :: "string \<Rightarrow> Models \<Rightarrow> string option \<Rightarrow> string list" where
  "getRelationPathsFromIdentifier identifier schema collection =
     map fst (getRelationsFromIdentifier identifier schema collection)"

definition identifierIncludesRelation :: "string \<Rightarrow> Models \<Rightarrow> string \<Rightarrow> bool" where
  "identifierIncludesRelation identifier schema collection =
     (getRelationPathsFromIdentifier identifier schema (Some collection) \<noteq> [])"

text \<open>\<^verbatim>\<open>referenceEntity._collection\<close> of a frame, when it is a string.\<close>

definition frameCollection :: "frame \<Rightarrow> string option" where
  "frameCollection f = (case map_of f ''_collection'' of Some (PVal (VStr c)) \<Rightarrow> Some c | _ \<Rightarrow> None)"

definition cardinalityManyMessage :: string where
  \<open>cardinalityManyMessage = ''Cannot load variables with cardinality "many"''\<close>

text \<open>The result of a sub-query as a plain value (\<^verbatim>\<open>null\<close> when there is none).\<close>

fun plainOfResults :: "subqueryResults \<Rightarrow> plain" where
  "plainOfResults (OneResult None) = PVal VNull"
| "plainOfResults (OneResult (Some e)) = PObj (timestampedObjectToPlainObject (TimestampedEntity e))"
| "plainOfResults (ManyResults rs) =
     PObj (map (\<lambda>r. (fst r, PObj (timestampedObjectToPlainObject (TimestampedEntity (snd r))))) rs)"

text \<open>
  \<^verbatim>\<open>loadRelationshipsIntoContextFromVariable\<close> for the variable text \<open>variable\<close>. It
  returns normally or raises, and leaves the context with the frame it referenced
  updated. Without a schema, and for a scope that is no number, it does nothing. The
  referenced frame is \<^verbatim>\<open>queriedDataStack[length - parsedScope]\<close>; reading
  \<^verbatim>\<open>_collection\<close> of a frame that is not there raises.
\<close>

definition loadRelationshipsIntoContextFromVariable ::
  "collaborators \<Rightarrow> string \<Rightarrow> FetchExecutionContext \<Rightarrow> FetchFromStorageOptions
     \<Rightarrow> (error + unit) \<times> FetchExecutionContext" where
  "loadRelationshipsIntoContextFromVariable deps variable executionContext options =
     (case o_schema options of
        None \<Rightarrow> (Inr (), executionContext)
      | Some schema \<Rightarrow>
          (case getVariableComponents variable of (scope, key) \<Rightarrow>
             (case parseInt (case scope of None \<Rightarrow> [] | Some s \<Rightarrow> s) of
                None \<Rightarrow> (Inr (), executionContext)
              | Some parsedScope \<Rightarrow>
                  (let stack = queriedDataStack executionContext;
                       stackLocation = int (length stack) - parsedScope
                   in if stackLocation < 0 \<or> int (length stack) \<le> stackLocation
                      then (Inl TypeError, executionContext)
                      else
                        (let referenceEntity = stack ! nat stackLocation;
                             relationEntries =
                               getRelationsFromIdentifier key schema (frameCollection referenceEntity)
                         in case relationEntries of
                              [] \<Rightarrow> (Inr (), executionContext)
                            | rootRelation # others \<Rightarrow>
                                (let deepestRelation = last relationEntries;
                                     pathToLoad = fst deepestRelation;
                                     rootRelationQuery = fst (snd rootRelation);
                                     rootCardinality = snd (snd rootRelation);
                                     pathParts = splitStr CHR ''.'' pathToLoad
                                 in if rootCardinality \<noteq> One
                                    then (Inl (TriplitError cardinalityManyMessage), executionContext)
                                    else
                                      (let includeStatement =
                                             foldl (\<lambda>incl k. InclusionNested [(k, incl)])
                                               InclusionShorthand (rev (drop 1 pathParts));
                                           subquery =
                                             (case includeStatement of
                                                InclusionNested kvs \<Rightarrow>
                                                  setInclude rootRelationQuery (Some kvs)
                                              | _ \<Rightarrow> rootRelationQuery);
                                           parentQuery =
                                             Query (case frameCollection referenceEntity of
                                                      None \<Rightarrow> [] | Some c \<Rightarrow> c)
                                               None None None None None None None
                                       in case loadSubquery deps parentQuery subquery rootCardinality
                                                 initialFetchExecutionContext options
                                                 (PlainEntity referenceEntity) of
                                            (Inl err, ctx') \<Rightarrow> (Inl err, executionContext)
                                          | (Inr r, ctx') \<Rightarrow>
                                              (Inr (),
                                               executionContext
                                                 \<lparr> queriedDataStack :=
                                                     stack[nat stackLocation :=
                                                       objSet (case pathParts of [] \<Rightarrow> [] | p # ps \<Rightarrow> p)
                                                         (plainOfResults (sq_results r))
                                                         referenceEntity] \<rparr>))))))))"

text \<open>The first loop of \<^verbatim>\<open>replaceVariablesInQuery\<close>, with which \<^verbatim>\<open>fetch\<close> starts:
  for every statement of \<^verbatim>\<open>where\<close> whose value is a variable, the relations of the
  variable are loaded; the first error ends the loop.\<close>

fun loadWhereVariables ::
  "collaborators \<Rightarrow> WhereFilter list \<Rightarrow> FetchExecutionContext \<Rightarrow> FetchFromStorageOptions
     \<Rightarrow> (error + unit) \<times> FetchExecutionContext" where
  "loadWhereVariables deps [] executionContext options = (Inr (), executionContext)"
| "loadWhereVariables deps (FilterStatement p op (Variable val) # clauses) executionContext options =
     (case loadRelationshipsIntoContextFromVariable deps val executionContext options of
        (Inl err, ctx1) \<Rightarrow> (Inl err, ctx1)
      | (Inr u, ctx1) \<Rightarrow> loadWhereVariables deps clauses ctx1 options)"
| "loadWhereVariables deps (f # clauses) executionContext options =
     loadWhereVariables deps clauses executionContext options"

subsection \<open>The state vector of \<^verbatim>\<open>fetchDeltaTriples\<close>\<close>







subsection \<open>Matching an entity without the index: \<^verbatim>\<open>doesEntityObjMatchBasicWhere\<close>\<close>

text \<open>
  Modelled from the spec: \<^verbatim>\<open>getSchemaFromPath\<close> (schema/schema.js) and
  \<^verbatim>\<open>someFilterStatements\<close> (db-helpers.js) are not among the sources. The first
  looks a path up in the properties of one collection (\<section>6.2); the second tells
  whether some filter of a \<^verbatim>\<open>where\<close>, the filters inside groups included, passes a
  test (\<section>4.9: "any subquery filter").
\<close>

definition getSchemaFromPath :: "(string \<times> DataType) list \<Rightarrow> string list \<Rightarrow> DataType option" where
  "getSchemaFromPath props path =
     (case schemaIterator [] (Some props) path of [] \<Rightarrow> None | ds \<Rightarrow> last ds)"

fun someFilterStatement :: "(WhereFilter \<Rightarrow> bool) \<Rightarrow> WhereFilter \<Rightarrow> bool" where
  "someFilterStatement P (FilterGroup m fs) =
     (P (FilterGroup m fs) \<or> list_ex (someFilterStatement P) fs)"
| "someFilterStatement P f = P f"

definition someFilterStatements :: "WhereFilter list \<Rightarrow> (WhereFilter \<Rightarrow> bool) \<Rightarrow> bool" where
  "someFilterStatements wh P = list_ex (someFilterStatement P) wh"

text \<open>
  \<^verbatim>\<open>entitySatisfiesAllFilters\<close> for one statement: the set test when the schema types
  the path as a set, the register test otherwise. (The source groups the statements by
  path and asks \<^verbatim>\<open>every\<close> group for \<^verbatim>\<open>every\<close> statement; the tests have no effect,
  so this is the conjunction over the statements.)

  \<^verbatim>\<open>doesEntityObjMatchBasicWhere\<close>: the statements must hold, of every or-group some
  filter must match, and every and-group must match; sub-query, exists and boolean
  filters are not looked at. \<open>matchesBasicFilter\<close> is the call on the one-element list
  \<^verbatim>\<open>[filter]\<close>, and the call on a list is the conjunction over its filters.
\<close>

definition statementSatisfied ::
  "collaborators \<Rightarrow> (string \<times> DataType) list option \<Rightarrow> entity \<Rightarrow> string \<Rightarrow> Operator \<Rightarrow> QueryValue
     \<Rightarrow> bool" where
  "statementSatisfied deps schema e path op v =
     (case (case schema of
              None \<Rightarrow> None
            | Some props \<Rightarrow> getSchemaFromPath props (splitStr CHR ''.'' path)) of
        Some SetType \<Rightarrow> satisfiesSetFilter deps e path op v
      | _ \<Rightarrow> satisfiesRegisterFilter deps e path op v)"

fun matchesBasicFilter ::
  "collaborators \<Rightarrow> (string \<times> DataType) list option \<Rightarrow> entity \<Rightarrow> WhereFilter \<Rightarrow> bool" where
  "matchesBasicFilter deps schema e (FilterStatement path op v) =
     statementSatisfied deps schema e path op v"
| "matchesBasicFilter deps schema e (FilterGroup ModOr fs) =
     list_ex (matchesBasicFilter deps schema e) fs"
| "matchesBasicFilter deps schema e (FilterGroup ModAnd fs) =
     list_all (matchesBasicFilter deps schema e) fs"
| "matchesBasicFilter deps schema e f = True"

definition doesEntityObjMatchBasicWhere ::
  "collaborators \<Rightarrow> entity \<Rightarrow> WhereFilter list option \<Rightarrow> (string \<times> DataType) list option \<Rightarrow> bool" where
  "doesEntityObjMatchBasicWhere deps entityObj wh schema =
     (case wh of
        None \<Rightarrow> True
      | Some fs \<Rightarrow> list_all (matchesBasicFilter deps schema entityObj) fs)"

subsection \<open>The subscription: the write handler of \<^verbatim>\<open>subscribeResultsAndTriples\<close>\<close>

text \<open>
  The closure keeps \<^verbatim>\<open>results\<close> and \<^verbatim>\<open>triples\<close> between the write batches. What the
  handler does to the outside is to call \<^verbatim>\<open>onResults\<close> and \<^verbatim>\<open>onError\<close>: the state
  holds the arguments of the calls so far, the latest last.
\<close>

record writeOps =
  inserts :: "triple list"
  deletes :: "triple list"

record subscription =
  sub_results :: "(string \<times> entity) list"
  sub_triples :: "(string \<times> triple list) list"
  onResultsCalls :: "((string \<times> frame) list \<times> (string \<times> triple list) list) list"
  onErrorCalls :: "error list"

text \<open>The inner function \<^verbatim>\<open>entityMatchesAfter\<close>.\<close>

definition entityMatchesAfter :: "collaborators \<Rightarrow> entity \<Rightarrow> query \<Rightarrow> error + bool" where
  "entityMatchesAfter deps e q =
     (case q_after q of
        None \<Rightarrow> Inr True
      | Some (cursor, inclusive) \<Rightarrow>
          (case q_order q of
             None \<Rightarrow> Inr True
           | Some [] \<Rightarrow> Inr True
           | Some ((orderAttr, orderDir) # others) \<Rightarrow>
               (case cursor of (afterEntityValue, afterEntityId) \<Rightarrow>
                  (case map_of e orderAttr of
                     None \<Rightarrow> Inl TypeError
                   | Some prop \<Rightarrow>
                       (let entityValue = leafValue (Some prop);
                            afterId = Some (VStr (stripCollectionFromId afterEntityId))
                        in if entityValue = Some afterEntityValue then
                             (case map_of e ''id'' of
                                None \<Rightarrow> Inl TypeError
                              | Some idProp \<Rightarrow>
                                  (let entityId = leafValue (Some idProp)
                                   in if orderDir = ASC then
                                        Inr (if inclusive
                                             then isLessThan deps entityId afterId = Some False
                                             else isLessThan deps afterId entityId = Some True)
                                      else
                                        Inr (if inclusive
                                             then isLessThan deps afterId entityId = Some False
                                             else isLessThan deps entityId afterId = Some True)))
                           else if orderDir = ASC
                           then Inr (isLessThan deps (Some afterEntityValue) entityValue = Some True)
                           else Inr (isLessThan deps entityValue (Some afterEntityValue) = Some True))))))"

text \<open>The ids of the written entities that belong to the query's collection, as the
  \<^verbatim>\<open>Set\<close> \<^verbatim>\<open>updatedEntitiesForQuery\<close> holds them: external ids, each once, in the
  order of their first write.\<close>

definition updatedEntitiesForQuery :: "query \<Rightarrow> (string \<times> writeOps) list \<Rightarrow> string list" where
  "updatedEntitiesForQuery q storeWrites =
     (let allInserts = concat (map (\<lambda>w. inserts (snd w)) storeWrites);
          allDeletes = concat (map (\<lambda>w. deletes (snd w)) storeWrites)
      in foldl (\<lambda>acc x. setAdd x acc) []
           (map snd
              (filter (\<lambda>parts. fst parts = collectionName q)
                 (map (\<lambda>t. splitIdParts (t_id t)) (allInserts @ allDeletes)))))"

text \<open>The test for "queries with nested queries", which are fetched anew.\<close>

definition isNestedQuery :: "query \<Rightarrow> WhereFilter list option \<Rightarrow> FetchFromStorageOptions \<Rightarrow> bool" where
  "isNestedQuery q wh options =
     ((case wh of None \<Rightarrow> False | Some fs \<Rightarrow> someFilterStatements fs isSubQueryFilter)
      \<or> (case q_include q of None \<Rightarrow> False | Some incl \<Rightarrow> incl \<noteq> [])
      \<or> (case q_order q of
            None \<Rightarrow> False
          | Some order \<Rightarrow>
              list_ex (\<lambda>ord. case o_schema options of
                                None \<Rightarrow> False
                              | Some s \<Rightarrow> identifierIncludesRelation (fst ord) s (collectionName q))
                order))"

text \<open>\<^verbatim>\<open>if (limit)\<close>: a limit that is given and not zero.\<close>

definition limitGiven :: "query \<Rightarrow> nat option" where
  "limitGiven q = (case q_limit q of Some n \<Rightarrow> if n = 0 then None else Some n | None \<Rightarrow> None)"

text \<open>One round of the loop over the updated entities. The accumulator is
  \<^verbatim>\<open>nextResult\<close>, \<^verbatim>\<open>matchedTriples\<close> and \<^verbatim>\<open>queryShouldRefire\<close>;
  \<open>endOfWindow\<close> and \<open>windowSize\<close> were read before the loop.\<close>

definition updateOneEntity ::
  "(encodable \<Rightarrow> 'e::linorder) \<Rightarrow> collaborators \<Rightarrow> TripleStoreApi \<Rightarrow> query
     \<Rightarrow> WhereFilter list option \<Rightarrow> FetchFromStorageOptions \<Rightarrow> entity option \<Rightarrow> nat
     \<Rightarrow> (string \<times> entity) list \<times> (string \<times> triple list) list \<times> bool \<Rightarrow> string
     \<Rightarrow> error + (string \<times> entity) list \<times> (string \<times> triple list) list \<times> bool" where
  "updateOneEntity enc deps tx q wh options endOfWindow windowSize acc ent =
     (case acc of (nextResult, matchedTriples, queryShouldRefire) \<Rightarrow>
        (let entityTriples = findByEntity tx (appendCollectionToId (collectionName q) ent);
             (entityObj, wrapperTriples) = updateEntity deps entityTriples;
             isInCollection =
               (case map_of entityObj ''_collection'' of
                  None \<Rightarrow> False
                | Some c \<Rightarrow> leafValue (Some c) = Some (VStr (collectionName q)));
             basicMatch =
               (isInCollection \<and>
                doesEntityObjMatchBasicWhere deps entityObj
                  (Some (case wh of None \<Rightarrow> [] | Some fs \<Rightarrow> fs))
                  (case o_schema options of
                     None \<Rightarrow> None
                   | Some s \<Rightarrow> map_of s (collectionName q)))
         in case (if basicMatch then entityMatchesAfter deps entityObj q else Inr False) of
              Inl err \<Rightarrow> Inl err
            | Inr isInResult \<Rightarrow>
                (case (case (q_order q, limitGiven q) of
                         (Some order, Some limit) \<Rightarrow>
                           if limit \<le> windowSize
                           then (case querySorter enc q (Some entityObj) endOfWindow of
                                   Inl err \<Rightarrow> Inl err
                                 | Inr c \<Rightarrow> Inr (c < 1))
                           else Inr True
                       | _ \<Rightarrow> Inr True) of
                   Inl err \<Rightarrow> Inl err
                 | Inr satisfiesLimitRange \<Rightarrow>
                     if isInResult \<and> satisfiesLimitRange then
                       (if map_of nextResult ent \<noteq> Some entityObj
                        then Inr (objSet ent entityObj nextResult,
                                  objSet ent wrapperTriples matchedTriples, True)
                        else Inr (nextResult, matchedTriples, queryShouldRefire))
                     else if map_of nextResult ent \<noteq> None then
                       Inr (objDelete ent nextResult,
                            objSet ent wrapperTriples matchedTriples, True)
                     else Inr (nextResult, matchedTriples, queryShouldRefire))))"

fun updateEntitiesLoop ::
  "(encodable \<Rightarrow> 'e::linorder) \<Rightarrow> collaborators \<Rightarrow> TripleStoreApi \<Rightarrow> query
     \<Rightarrow> WhereFilter list option \<Rightarrow> FetchFromStorageOptions \<Rightarrow> entity option \<Rightarrow> nat
     \<Rightarrow> (string \<times> entity) list \<times> (string \<times> triple list) list \<times> bool \<Rightarrow> string list
     \<Rightarrow> error + (string \<times> entity) list \<times> (string \<times> triple list) list \<times> bool" where
  "updateEntitiesLoop enc deps tx q wh options endOfWindow windowSize acc [] = Inr acc"
| "updateEntitiesLoop enc deps tx q wh options endOfWindow windowSize acc (ent # ents) =
     (case updateOneEntity enc deps tx q wh options endOfWindow windowSize acc ent of
        Inl err \<Rightarrow> Inl err
      | Inr acc1 \<Rightarrow> updateEntitiesLoop enc deps tx q wh options endOfWindow windowSize acc1 ents)"

text \<open>The back-fill after entities left a limited result: a fetch after the last
  entry that is left, for the missing number of entities. The cursor's value is the
  last entry's value of the first order attribute (\<^verbatim>\<open>null\<close> stands for a value that
  is not there), or its id when the query has no order.\<close>

definition backFill ::
  "collaborators \<Rightarrow> query \<Rightarrow> FetchFromStorageOptions \<Rightarrow> nat \<Rightarrow> (string \<times> entity) list
     \<Rightarrow> error + (string \<times> entity) list" where
  "backFill deps q options limit entries =
     (case (case entries of
              [] \<Rightarrow> Inr None
            | _ \<Rightarrow>
                (let lastResultEntry = last entries;
                     lastResultEntryId = appendCollectionToId (collectionName q) (fst lastResultEntry)
                 in case q_order q of
                      None \<Rightarrow> Inr (Some ((VStr lastResultEntryId, lastResultEntryId), False))
                    | Some [] \<Rightarrow> Inl TypeError
                    | Some (ord # others) \<Rightarrow>
                        (case map_of (snd lastResultEntry) (fst ord) of
                           None \<Rightarrow> Inl TypeError
                         | Some prop \<Rightarrow>
                             Inr (Some (((case leafValue (Some prop) of None \<Rightarrow> VNull | Some v \<Rightarrow> v),
                                         lastResultEntryId), False))))) of
        Inl err \<Rightarrow> Inl err
      | Inr after \<Rightarrow>
          (case fetch deps (setAfter (setLimit q (Some (limit - length entries))) after)
                  initialFetchExecutionContext options of
             (Inl err, ctx) \<Rightarrow> Inl err
           | (Inr backFilledResults, ctx) \<Rightarrow> Inr (entries @ results backFilledResults)))"

definition convertResults ::
  "collaborators \<Rightarrow> query \<Rightarrow> FetchFromStorageOptions \<Rightarrow> (string \<times> entity) list
     \<Rightarrow> (string \<times> frame) list" where
  "convertResults deps q options rs =
     map (\<lambda>r. (fst r, convertEntityToJS deps (TimestampedEntity (snd r)) (o_schema options)
                         (collectionName q))) rs"

text \<open>
  The handler given to \<^verbatim>\<open>tripleStore.onWrite\<close>, for one write batch. \<open>wh\<close> is the
  \<^verbatim>\<open>where\<close> of the query with its variables replaced, computed when the subscription
  started. The body runs inside \<^verbatim>\<open>try\<close>: an error goes to \<^verbatim>\<open>onError\<close>, and
  \<^verbatim>\<open>results\<close> and \<^verbatim>\<open>triples\<close> are assigned only right before \<^verbatim>\<open>onResults\<close>.
  \<open>handlerBody\<close> is the body: \<open>None\<close> is a return without a call of \<^verbatim>\<open>onResults\<close>,
  otherwise it gives the new \<^verbatim>\<open>results\<close> and \<^verbatim>\<open>triples\<close>.
\<close>

definition handlerBody ::
  "(encodable \<Rightarrow> 'e::linorder) \<Rightarrow> collaborators \<Rightarrow> TripleStoreApi \<Rightarrow> query
     \<Rightarrow> WhereFilter list option \<Rightarrow> FetchFromStorageOptions \<Rightarrow> subscription
     \<Rightarrow> (string \<times> writeOps) list
     \<Rightarrow> error + ((string \<times> entity) list \<times> (string \<times> triple list) list) option" where
  "handlerBody enc deps tx q wh options st storeWrites =
     (if isNestedQuery q wh options then
        (case fetch deps q initialFetchExecutionContext options of
           (Inl err, ctx) \<Rightarrow> Inl err
         | (Inr fetchResult, ctx) \<Rightarrow> Inr (Some (results fetchResult, triples fetchResult)))
      else
        (let updated = updatedEntitiesForQuery q storeWrites
         in if updated = [] then Inr None
            else
              (let nextResult = sub_results st;
                   endOfWindow = (case nextResult of [] \<Rightarrow> None | _ \<Rightarrow> Some (snd (last nextResult)));
                   windowSize = length nextResult
               in case updateEntitiesLoop enc deps tx q wh options endOfWindow windowSize
                         (nextResult, [], False) updated of
                    Inl err \<Rightarrow> Inl err
                  | Inr (nextResult1, matchedTriples, queryShouldRefire) \<Rightarrow>
                      if \<not> queryShouldRefire then Inr None
                      else if q_order q \<noteq> None \<or> limitGiven q \<noteq> None then
                        (case (case limitGiven q of
                                 Some limit \<Rightarrow>
                                   if length nextResult1 < limit
                                   then backFill deps q options limit nextResult1
                                   else Inr nextResult1
                               | None \<Rightarrow> Inr nextResult1) of
                           Inl err \<Rightarrow> Inl err
                         | Inr entries \<Rightarrow>
                             (case sortEntities enc q entries of
                                Inl err \<Rightarrow> Inl err
                              | Inr sortedEntries \<Rightarrow>
                                  Inr (Some (foldl (\<lambda>m kv. objSet (fst kv) (snd kv) m) []
                                               (case q_limit q of
                                                  None \<Rightarrow> sortedEntries
                                                | Some n \<Rightarrow> take n sortedEntries),
                                             matchedTriples))))
                      else Inr (Some (nextResult1, matchedTriples)))))"

definition onWrite ::
  "(encodable \<Rightarrow> 'e::linorder) \<Rightarrow> collaborators \<Rightarrow> TripleStoreApi \<Rightarrow> query
     \<Rightarrow> WhereFilter list option \<Rightarrow> FetchFromStorageOptions \<Rightarrow> subscription
     \<Rightarrow> (string \<times> writeOps) list \<Rightarrow> subscription" where
  "onWrite enc deps tx q wh options st storeWrites =
     (case handlerBody enc deps tx q wh options st storeWrites of
        Inl err \<Rightarrow> st\<lparr> onErrorCalls := onErrorCalls st @ [err] \<rparr>
      | Inr None \<Rightarrow> st
      | Inr (Some (rs, ts)) \<Rightarrow>
          st\<lparr> sub_results := rs, sub_triples := ts,
              onResultsCalls := onResultsCalls st @ [(convertResults deps q options rs, ts)] \<rparr>)"

subsection \<open>Statements an index can serve\<close>

text \<open>The two tests of the loop of \<^verbatim>\<open>findCandidateFilter\<close>, as predicates on a filter:
  whether it is a statement whose operator is in \<^verbatim>\<open>EQUALITY_OPS\<close> or \<^verbatim>\<open>RANGE_OPS\<close>,
  and the kind of scan the loop returns for it.\<close>

fun isIndexable :: "WhereFilter \<Rightarrow> bool" where
  "isIndexable (FilterStatement p op v) = (op \<in> set EQUALITY_OPS \<or> op \<in> set RANGE_OPS)"
| "isIndexable f = False"

fun scanKind :: "WhereFilter \<Rightarrow> filterType" where
  "scanKind (FilterStatement p op v) = (if op \<in> set EQUALITY_OPS then FT_equality else FT_range)"
| "scanKind f = FT_range"

subsection \<open>Order keys\<close>


subsection \<open>The ticks of a client\<close>



subsection \<open>The last write of a leaf\<close>


section \<open>Concrete inputs\<close>

text \<open>
  Modelled from the spec: \<^verbatim>\<open>encodeValue\<close> of the tuple database is not among the
  sources. Per \<section>4.7 it is a total-order encoding in which values of different types
  compare deterministically and \<^verbatim>\<open>MIN\<close> sorts first. Here a value is encoded as a
  list of integers, a tag for its type and then its content, compared
  lexicographically; numbers keep their order and strings the order of their
  characters.
\<close>

fun encodeValue :: "encodable \<Rightarrow> int list" where
  "encodeValue MIN_value = []"
| "encodeValue Undefined = [0]"
| "encodeValue (Value VNull) = [1]"
| "encodeValue (Value (VBool b)) = [2, if b then 1 else 0]"
| "encodeValue (Value (VNum n)) = [3, n]"
| "encodeValue (Value (VStr s)) = 4 # map (\<lambda>c. int (of_char c)) s"

text \<open>
  Modelled from the spec: the triple store is not among the sources. \<open>logStore\<close> reads
  a log of triples. Per \<section>6.1 \<^verbatim>\<open>find_by_ave\<close> is the exact lookup of an attribute and
  a value, \<^verbatim>\<open>find_by_entity\<close> gives the triples of an entity, and
  \<^verbatim>\<open>find_values_in_range\<close> is the ordered scan of an attribute within bounds on the
  value and on the cursor, a cursor being a value with an entity id; the scan is
  ordered by the encoded value and then the entity id, backwards for \<^verbatim>\<open>DESC\<close>.
\<close>

definition withinRange :: "RangeContraints \<Rightarrow> triple \<Rightarrow> bool" where
  "withinRange rc t =
     (let k = encodeValue (Value (t_value t));
          kc = (k, t_id t);
          cursorKey = (\<lambda>c. (encodeValue (Value (fst c)), snd c))
      in (case greaterThan rc of None \<Rightarrow> True | Some v \<Rightarrow> encodeValue (Value v) < k)
       \<and> (case greaterThanOrEqual rc of None \<Rightarrow> True | Some v \<Rightarrow> encodeValue (Value v) \<le> k)
       \<and> (case lessThan rc of None \<Rightarrow> True | Some v \<Rightarrow> k < encodeValue (Value v))
       \<and> (case lessThanOrEqual rc of None \<Rightarrow> True | Some v \<Rightarrow> k \<le> encodeValue (Value v))
       \<and> (case greaterThanCursor rc of None \<Rightarrow> True | Some c \<Rightarrow> cursorKey c < kc)
       \<and> (case greaterThanOrEqualCursor rc of None \<Rightarrow> True | Some c \<Rightarrow> cursorKey c \<le> kc)
       \<and> (case lessThanCursor rc of None \<Rightarrow> True | Some c \<Rightarrow> kc < cursorKey c)
       \<and> (case lessThanOrEqualCursor rc of None \<Rightarrow> True | Some c \<Rightarrow> kc \<le> cursorKey c))"

definition logStore :: "triple list \<Rightarrow> TripleStoreApi" where
  "logStore log =
     \<lparr> findByAVE = (\<lambda>key v. filter (\<lambda>t. t_attribute t = key \<and> t_value t = v) log),
       findValuesInRange =
         (\<lambda>key rc.
            (let rows = sort_key (\<lambda>t. (encodeValue (Value (t_value t)), t_id t))
                          (filter (\<lambda>t. t_attribute t = key \<and> withinRange rc t) log)
             in if rc_direction rc = Some DESC then rev rows else rows)),
       findByEntity = (\<lambda>eid. filter (\<lambda>t. t_id t = eid) log) \<rparr>"

definition defaultOptions :: FetchFromStorageOptions where
  "defaultOptions = \<lparr> o_schema = None, o_skipRules = False, o_skipIndex = False \<rparr>"

definition postsSchema :: Models where
  "postsSchema =
     [(''posts'', [(''rank'', ScalarType ''number''), (''name'', ScalarType ''string'')])]"

text \<open>A \<^verbatim>\<open>where\<close> with a range statement before an equality statement, and one that
  starts with a statement no index serves.\<close>

definition rangeFirstQuery :: query where
  "rangeFirstQuery =
     Query ''posts''
       (Some [FilterStatement ''rank'' OpGt (Lit (VNum 5)),
              FilterStatement ''name'' OpEq (Lit (VStr ''a''))])
       None None None None None None"

definition likeFirstQuery :: query where
  "likeFirstQuery =
     Query ''posts''
       (Some [FilterStatement ''name'' OpLike (Lit (VStr ''a%'')),
              FilterStatement ''rank'' OpLte (Lit (VNum 9)),
              FilterStatement ''name'' OpEq (Lit (VStr ''a''))])
       None None None None None None"

text \<open>A write of the name of \<^verbatim>\<open>users#1\<close> at a tick of a client, and the log of an
  entity that was named Alice, then Bob, then Alice again; the queries for the users
  named Alice, for the users named Bob, for the users whose name is \<^verbatim>\<open>A\<close> or after
  it, and for all users by name.\<close>

definition nameTriple :: "string \<Rightarrow> int \<Rightarrow> string \<Rightarrow> triple" where
  "nameTriple v tick client =
     \<lparr> t_id = ''users#1'', t_attribute = [VStr ''users'', VStr ''name''],
       t_value = VStr v, t_timestamp = (tick, client), t_expired = False \<rparr>"

definition aliceLog :: "triple list" where
  "aliceLog = [nameTriple ''Alice'' 1 ''a'', nameTriple ''Bob'' 2 ''a'', nameTriple ''Alice'' 3 ''a'']"

definition nameQuery :: query where
  "nameQuery =
     Query ''users'' (Some [FilterStatement ''name'' OpEq (Lit (VStr ''Alice''))])
       None None None None None None"

definition bobQuery :: query where
  "bobQuery =
     Query ''users'' (Some [FilterStatement ''name'' OpEq (Lit (VStr ''Bob''))])
       None None None None None None"

definition fromAQuery :: query where
  "fromAQuery =
     Query ''users'' (Some [FilterStatement ''name'' OpGte (Lit (VStr ''A''))])
       None None None None None None"

definition byNameQuery :: query where
  "byNameQuery = Query ''users'' None (Some [(''name'', ASC)]) None None None None None"

text \<open>The log of the collection attribute of \<^verbatim>\<open>users#1\<close>, inserted, deleted and
  inserted again.\<close>

definition collectionTriple :: "tvalue \<Rightarrow> int \<Rightarrow> triple" where
  "collectionTriple v tick =
     \<lparr> t_id = ''users#1'', t_attribute = [VStr ''_collection''],
       t_value = v, t_timestamp = (tick, ''a''), t_expired = False \<rparr>"

definition reinsertedLog :: "triple list" where
  "reinsertedLog =
     [collectionTriple (VStr ''users'') 1, collectionTriple VNull 2,
      collectionTriple (VStr ''users'') 3]"

text \<open>The order of the \<^verbatim>\<open>where\<close> list itself, as a priority order (for a
  \<^verbatim>\<open>where\<close> of one clause there is no other), and the pipeline item of
  \<^verbatim>\<open>users#1\<close>.\<close>

definition whereOrder :: "query \<Rightarrow> nat list" where
  "whereOrder q = [0..<length (case q_where q of None \<Rightarrow> [] | Some wh \<Rightarrow> wh)]"

definition aliceItem :: "string \<times> QueryPipelineData" where
  "aliceItem =
     (''1'',
      \<lparr> p_entity = Some [(''name'', TsLeaf (VStr ''Alice'') (3, ''a''))],
        p_triples = aliceLog, p_relationships = [], p_existsFilterTriples = [] \<rparr>)"

text \<open>
  Modelled from the spec: \<^verbatim>\<open>satisfiesFilter\<close> (query/filters.js) is not among the
  sources. Per \<section>4.4 a statement on a scalar leaf uses register semantics: \<open>leafEquals\<close>
  is that test for a statement with the operator \<^verbatim>\<open>=\<close> and a literal value, on the leaf
  of the item's entity; every other filter passes.
\<close>

definition leafEquals :: "query \<Rightarrow> QueryPipelineData \<Rightarrow> WhereFilter option \<Rightarrow> error + bool" where
  "leafEquals q item flt =
     (case flt of
        Some (FilterStatement path op (Lit v)) \<Rightarrow>
          if op = OpEq
          then Inr (case p_entity item of
                      None \<Rightarrow> False
                    | Some e \<Rightarrow> leafValue (map_of e path) = Some v)
          else Inr True
      | _ \<Rightarrow> Inr True)"

text \<open>Posts with a rank, and the query for the published posts after rank 20 of
  \<^verbatim>\<open>posts#2\<close>, the cursor not included.\<close>

definition rankedPost :: "string \<Rightarrow> int \<Rightarrow> string \<times> QueryPipelineData" where
  "rankedPost ext rank =
     (ext,
      \<lparr> p_entity = Some [(''id'', TsLeaf (VStr ext) (1, ''a'')),
                          (''rank'', TsLeaf (VNum rank) (1, ''a''))],
        p_triples = [], p_relationships = [], p_existsFilterTriples = [] \<rparr>)"

definition afterRank20Query :: query where
  "afterRank20Query =
     Query ''posts'' (Some [FilterStatement ''published'' OpEq (Lit (VBool True))])
       (Some [(''rank'', ASC)]) None
       (Some ((VNum 20, ''posts#2''), False)) None None None"

text \<open>Posts as entities, a query ordered by rank, and one ordered by rank and then by
  the \<^verbatim>\<open>id\<close> attribute.\<close>

definition rankOrderQuery :: query where
  "rankOrderQuery = Query ''posts'' None (Some [(''rank'', ASC)]) None None None None None"

definition postEntity :: "string \<Rightarrow> int \<Rightarrow> entity" where
  "postEntity ext rank =
     [(''id'', TsLeaf (VStr ext) (1, ''a'')), (''rank'', TsLeaf (VNum rank) (1, ''a''))]"


text \<open>Collaborators whose \<^verbatim>\<open>fetch\<close> raises and leaves the context as it found it, and
  two queries without clauses.\<close>

definition failingFetchDeps :: collaborators where
  "failingFetchDeps =
     \<lparr> prepareQuery = (\<lambda>q schema skipRules. Inr q),
       convertDBValueToJS = (\<lambda>schema collection obj. obj),
       fetch = (\<lambda>q ctx options. (Inl (TriplitError ''fetch failed''), ctx)),
       updateEntity = (\<lambda>ts. ([], ts)),
       satisfiesSetFilter = (\<lambda>e path op v. True),
       satisfiesRegisterFilter = (\<lambda>e path op v. True),
       isLessThan = (\<lambda>a b. None) \<rparr>"

definition commentsQuery :: query where
  "commentsQuery = Query ''comments'' None None None None None None None"

definition postsQuery :: query where
  "postsQuery = Query ''posts'' None None None None None None None"

text \<open>A schema in which a post has many comments and one author, and a user has many
  posts; a stack with one frame of a post; and options with that schema.\<close>

definition usersQuery :: query where
  "usersQuery = Query ''users'' None None None None None None None"

definition blogSchema :: Models where
  "blogSchema =
     [(''posts'', [(''title'', ScalarType ''string''),
                   (''comments'', QueryType commentsQuery Many),
                   (''author'', QueryType usersQuery One)]),
      (''comments'', [(''text'', ScalarType ''string'')]),
      (''users'', [(''name'', ScalarType ''string''),
                   (''posts'', QueryType postsQuery Many)])]"

definition postFrameContext :: FetchExecutionContext where
  "postFrameContext = \<lparr> queriedDataStack = [[(''_collection'', PVal (VStr ''posts''))]] \<rparr>"

definition blogOptions :: FetchFromStorageOptions where
  "blogOptions = \<lparr> o_schema = Some blogSchema, o_skipRules = False, o_skipIndex = False \<rparr>"

text \<open>A subscription on posts whose result holds one post, and a write batch with one
  insert, a triple of \<^verbatim>\<open>users#1\<close>.\<close>

definition onePostSubscription :: subscription where
  "onePostSubscription =
     \<lparr> sub_results = [(''1'', postEntity ''1'' 10)], sub_triples = [],
       onResultsCalls = [], onErrorCalls = [] \<rparr>"

definition usersWrite :: "(string \<times> writeOps) list" where
  "usersWrite = [(''tx1'', \<lparr> inserts = [nameTriple ''Alice'' 5 ''a''], deletes = [] \<rparr>)]"

text \<open>A \<^verbatim>\<open>fetch\<close> that runs the first stage of the source's \<^verbatim>\<open>fetch\<close>, the loading of
  the relations of the variables of \<^verbatim>\<open>where\<close>, and gives an empty result when that
  stage passes; and a sub-query for the comments of a post whose statement refers to
  the parent post through its relation \<^verbatim>\<open>comments\<close>.\<close>

definition variableStageFetch ::
  "collaborators \<Rightarrow> query \<Rightarrow> FetchExecutionContext \<Rightarrow> FetchFromStorageOptions
     \<Rightarrow> (error + FetchResult) \<times> FetchExecutionContext" where
  "variableStageFetch deps q ctx options =
     (case loadWhereVariables deps (case q_where q of None \<Rightarrow> [] | Some wh \<Rightarrow> wh) ctx options of
        (Inl err, ctx1) \<Rightarrow> (Inl err, ctx1)
      | (Inr u, ctx1) \<Rightarrow> (Inr \<lparr> results = [], triples = [] \<rparr>, ctx1))"

definition variableStageDeps :: collaborators where
  "variableStageDeps = failingFetchDeps\<lparr> fetch := variableStageFetch failingFetchDeps \<rparr>"

definition commentsOfPostQuery :: query where
  "commentsOfPostQuery =
     Query ''comments''
       (Some [FilterStatement ''text'' OpEq (Variable ''$1.comments.text'')])
       None None None None None None"

text \<open>Collaborators whose \<^verbatim>\<open>fetch\<close> finds nothing and leaves the context as it found
  it.\<close>

definition emptyFetchDeps :: collaborators where
  "emptyFetchDeps =
     failingFetchDeps\<lparr> fetch := (\<lambda>q ctx options. (Inr \<lparr> results = [], triples = [] \<rparr>, ctx)) \<rparr>"

section \<open>Properties\<close>

lemmas ops_defs = EQUALITY_OPS_def RANGE_OPS_def GT_OPS_def LT_OPS_def

subsection \<open>The index selector\<close>

lemma findCandidateLoop_first:
  "i < length fs \<Longrightarrow> isIndexable (fs ! i) \<Longrightarrow> \<forall>j<i. \<not> isIndexable (fs ! j) \<Longrightarrow>
   findCandidateLoop schema cn fs n =
     Some (n + i, scanKind (fs ! i),
           getCandidateDataTypeFromPath (statementPath (fs ! i)) schema cn)"
proof (induction fs arbitrary: i n)
  case Nil
  then show ?case by simp
next
  case (Cons f fs)
  show ?case
  proof (cases i)
    case 0
    with Cons.prems show ?thesis by (cases f) auto
  next
    case (Suc k)
    from Cons.prems Suc have nf: "\<not> isIndexable f" by auto
    from Cons.prems Suc
    have k: "k < length fs" "isIndexable (fs ! k)" "\<forall>j<k. \<not> isIndexable (fs ! j)"
      by auto
    have "findCandidateLoop schema cn (f # fs) n = findCandidateLoop schema cn fs (Suc n)"
      using nf by (cases f) auto
    also have "\<dots> = Some (Suc n + k, scanKind (fs ! k),
        getCandidateDataTypeFromPath (statementPath (fs ! k)) schema cn)"
      using Cons.IH[OF k] .
    finally show ?thesis using Suc by simp
  qed
qed

lemma findCandidateLoop_none:
  "\<forall>f\<in>set fs. \<not> isIndexable f \<Longrightarrow> findCandidateLoop schema cn fs n = None"
proof (induction fs arbitrary: n)
  case Nil
  then show ?case by simp
next
  case (Cons f fs)
  then show ?case by (cases f) auto
qed

text \<open>
  C3, as the code has it. The selector takes the first statement of \<^verbatim>\<open>where\<close> whose
  operator is \<^verbatim>\<open>=\<close> or a range operator, whichever kind it is: the scan is an
  equality scan when that statement's operator is \<^verbatim>\<open>=\<close> and a range scan otherwise.
  A range statement that stands before every equality statement is therefore the one
  chosen.
\<close>

theorem findCandidateFilter_first_indexable:
  assumes "q_where q = Some wh"
    and "i < length wh"
    and "isIndexable (wh ! i)"
    and "\<forall>j<i. \<not> isIndexable (wh ! j)"
  shows "findCandidateFilter q schema =
           Some (i, scanKind (wh ! i),
                 getCandidateDataTypeFromPath (statementPath (wh ! i)) schema (collectionName q))"
  using findCandidateLoop_first[OF assms(2,3,4), of schema "collectionName q" 0] assms(1)
  by (simp add: findCandidateFilter_def)

text \<open>The theorem on a \<^verbatim>\<open>where\<close> of three statements, a \<^verbatim>\<open>like\<close>, a \<^verbatim>\<open><=\<close> and an
  \<^verbatim>\<open>=\<close>: the selector takes the range statement at index 1.\<close>

theorem findCandidateFilter_first_indexable_witness:
  "q_where likeFirstQuery =
     Some [FilterStatement ''name'' OpLike (Lit (VStr ''a%'')),
           FilterStatement ''rank'' OpLte (Lit (VNum 9)),
           FilterStatement ''name'' OpEq (Lit (VStr ''a''))]
   \<and> findCandidateFilter likeFirstQuery (Some postsSchema)
       = Some (1, FT_range, Some (ScalarType ''number''))"
  using findCandidateFilter_first_indexable[of likeFirstQuery
      "[FilterStatement ''name'' OpLike (Lit (VStr ''a%'')),
        FilterStatement ''rank'' OpLte (Lit (VNum 9)),
        FilterStatement ''name'' OpEq (Lit (VStr ''a''))]" 1 "Some postsSchema"]
  by (simp add: likeFirstQuery_def postsSchema_def ops_defs getCandidateDataTypeFromPath_def
      getAttributeFromSchema_def schemaStep_def propertiesOf_def)

text \<open>C3 as stated fails: with a range statement at index 0 and an equality statement
  on a scalar path at index 1, and no equality on \<^verbatim>\<open>id\<close>, the selector returns the
  range statement.\<close>

theorem range_before_equality_counterexample:
  "getIdFilterFromQuery rangeFirstQuery = None
   \<and> q_where rangeFirstQuery =
       Some [FilterStatement ''rank'' OpGt (Lit (VNum 5)),
             FilterStatement ''name'' OpEq (Lit (VStr ''a''))]
   \<and> getAttributeFromSchema [''name''] postsSchema ''posts'' = Some (ScalarType ''string'')
   \<and> findCandidateFilter rangeFirstQuery (Some postsSchema)
       = Some (0, FT_range, Some (ScalarType ''number''))"
  by (simp add: rangeFirstQuery_def postsSchema_def getIdFilterFromQuery_def
      getAttributeFromSchema_def schemaStep_def propertiesOf_def findCandidateFilter_def
      getCandidateDataTypeFromPath_def ops_defs)

subsection \<open>The candidate ids\<close>

lemma orderSetLoop_distinct:
  "distinct ids \<Longrightarrow> distinct (orderSetLoop ts ea ids)"
proof (induction ts arbitrary: ea ids)
  case Nil
  then show ?case by simp
next
  case (Cons t ts)
  have a: "distinct (setAdd (t_id t) ids)"
    using Cons.prems by (simp add: setAdd_def)
  have b: "distinct (setAdd (t_id t) (setDelete (t_id t) ids))"
    using Cons.prems by (simp add: setAdd_def setDelete_def)
  show ?case
    using Cons.IH[OF a] Cons.IH[OF b] Cons.IH[OF Cons.prems]
    by (simp add: Let_def split: option.splits)
qed

lemma getOrderSetForQuery_distinct:
  "fst (getOrderSetForQuery tx q schema fulfilled) = Some ids \<Longrightarrow> distinct ids"
  by (auto simp: getOrderSetForQuery_def Let_def orderSetLoop_distinct
      split: option.splits list.splits prod.splits if_splits)

lemma getOrderSetForQuery_None:
  "fst (getOrderSetForQuery tx q schema fulfilled) = None \<Longrightarrow>
   getOrderSetForQuery tx q schema fulfilled = (None, fulfilled)"
  by (auto simp: getOrderSetForQuery_def Let_def
      split: option.splits list.splits prod.splits if_splits)

lemma getCandidateDataTypeFromPath_scalar_or_set:
  "getCandidateDataTypeFromPath path schema cn = Some d \<Longrightarrow> \<not> isRelation d \<and> \<not> isRecord d"
  by (auto simp: getCandidateDataTypeFromPath_def split: option.splits if_splits)

lemma performEqualityScan_reads:
  assumes "dt = getCandidateDataTypeFromPath path schema cn"
  shows "performEqualityScan tx q (FilterStatement path op v) dt
         = (if dt = Some SetType
            then findByAVE tx (attributeKey (collectionName q) path @ [queryValueToTuple v])
                   (VBool True)
            else findByAVE tx (attributeKey (collectionName q) path) (queryValueToTuple v))"
proof (cases dt)
  case None
  then show ?thesis
    by (simp add: performEqualityScan_def performValueEqualityScan_def)
next
  case (Some d)
  then have "\<not> isRelation d \<and> \<not> isRecord d"
    using assms getCandidateDataTypeFromPath_scalar_or_set[of path schema cn d] by simp
  then show ?thesis
    using Some
    by (cases d)
       (simp_all add: performEqualityScan_def performValueEqualityScan_def
          performSetEqualityScan_def)
qed

lemma selector_without_indexable:
  "\<forall>f\<in>set (case q_where q of None \<Rightarrow> [] | Some wh \<Rightarrow> wh). \<not> isIndexable f
   \<Longrightarrow> findCandidateFilter q schema = None"
  using findCandidateLoop_none[of _ schema "collectionName q" 0]
  by (auto simp: findCandidateFilter_def split: option.splits)

lemma selector_takes_first_indexable:
  assumes "q_where q = Some wh"
    and "i < length wh"
    and "isIndexable (wh ! i)"
    and "\<forall>j<i. \<not> isIndexable (wh ! j)"
  shows "findCandidateFilter q schema =
           Some (i, scanKind (wh ! i),
                 getCandidateDataTypeFromPath (statementPath (wh ! i)) schema (collectionName q))"
  using findCandidateLoop_first[OF assms(2,3,4), of schema "collectionName q" 0] assms(1)
  by (simp add: findCandidateFilter_def)

text \<open>
  C4 at the failing paths. With the index in use, the id-point path gives the one id
  and the order scan gives each id once. The equality scan, the range scan and the scan
  of the collection give the id of every triple that the read of the index
  (\<^verbatim>\<open>findByAVE\<close>, \<^verbatim>\<open>findValuesInRange\<close>) returns, one per triple and in the order of
  the read: an entity is a candidate as often as it has triples in the read, and the
  candidates are not de-duplicated.
\<close>

theorem candidates_by_access_path:
  assumes "\<not> o_skipIndex options"
  shows "(getIdFilterFromQuery q = Some e \<longrightarrow>
            fst (getCandidateEntityIds tx q options) = [e])
       \<and> (getIdFilterFromQuery q = None \<and> q_where q = Some wh \<and> i < length wh
            \<and> (\<forall>j<i. \<not> isIndexable (wh ! j))
            \<and> wh ! i = FilterStatement path OpEq v
          \<longrightarrow> fst (getCandidateEntityIds tx q options)
                = map t_id
                    (if getCandidateDataTypeFromPath path (o_schema options) (collectionName q)
                        = Some SetType
                     then findByAVE tx
                            (attributeKey (collectionName q) path @ [queryValueToTuple v])
                            (VBool True)
                     else findByAVE tx (attributeKey (collectionName q) path)
                            (queryValueToTuple v)))
       \<and> (getIdFilterFromQuery q = None \<and> q_where q = Some wh \<and> i < length wh
            \<and> (\<forall>j<i. \<not> isIndexable (wh ! j))
            \<and> wh ! i = FilterStatement path op v \<and> op \<in> set RANGE_OPS
          \<longrightarrow> fst (getCandidateEntityIds tx q options)
                = map t_id
                    (findValuesInRange tx (attributeKey (collectionName q) path)
                       (rangeParams (wh ! i)
                          (map_option (\<lambda>j. wh ! j)
                             (findRangeFilter q path i (op \<notin> set GT_OPS))))))
       \<and> (getIdFilterFromQuery q = None
            \<and> (\<forall>f\<in>set (case q_where q of None \<Rightarrow> [] | Some w \<Rightarrow> w). \<not> isIndexable f)
            \<and> fst (getOrderSetForQuery tx q (o_schema options) (initialFulfilled q)) = Some ids
          \<longrightarrow> fst (getCandidateEntityIds tx q options) = ids \<and> distinct ids)
       \<and> (getIdFilterFromQuery q = None
            \<and> (\<forall>f\<in>set (case q_where q of None \<Rightarrow> [] | Some w \<Rightarrow> w). \<not> isIndexable f)
            \<and> fst (getOrderSetForQuery tx q (o_schema options) (initialFulfilled q)) = None
          \<longrightarrow> fst (getCandidateEntityIds tx q options)
                = map t_id (findByAVE tx [VStr ''_collection''] (VStr (collectionName q))))"
proof (intro conjI impI)
  assume "getIdFilterFromQuery q = Some e"
  then show "fst (getCandidateEntityIds tx q options) = [e]"
    using assms by (simp add: getCandidateEntityIds_def)
next
  assume h: "getIdFilterFromQuery q = None \<and> q_where q = Some wh \<and> i < length wh
      \<and> (\<forall>j<i. \<not> isIndexable (wh ! j))
      \<and> wh ! i = FilterStatement path OpEq v"
  let ?dt = "getCandidateDataTypeFromPath path (o_schema options) (collectionName q)"
  have "findCandidateFilter q (o_schema options) = Some (i, FT_equality, ?dt)"
    using h selector_takes_first_indexable[of q wh i "o_schema options"]
    by (simp add: EQUALITY_OPS_def)
  then have "fst (getCandidateEntityIds tx q options)
      = map t_id (performEqualityScan tx q (FilterStatement path OpEq v) ?dt)"
    using assms h by (simp add: getCandidateEntityIds_def getFilterSetForQuery_def Let_def)
  then show "fst (getCandidateEntityIds tx q options)
      = map t_id
          (if ?dt = Some SetType
           then findByAVE tx (attributeKey (collectionName q) path @ [queryValueToTuple v])
                  (VBool True)
           else findByAVE tx (attributeKey (collectionName q) path) (queryValueToTuple v))"
    using performEqualityScan_reads[of ?dt path "o_schema options" "collectionName q" tx q OpEq v]
    by simp
next
  assume h: "getIdFilterFromQuery q = None \<and> q_where q = Some wh \<and> i < length wh
      \<and> (\<forall>j<i. \<not> isIndexable (wh ! j))
      \<and> wh ! i = FilterStatement path op v \<and> op \<in> set RANGE_OPS"
  let ?dt = "getCandidateDataTypeFromPath path (o_schema options) (collectionName q)"
  have "findCandidateFilter q (o_schema options) = Some (i, FT_range, ?dt)"
    using h selector_takes_first_indexable[of q wh i "o_schema options"]
    by (auto simp: ops_defs)
  then show "fst (getCandidateEntityIds tx q options)
      = map t_id
          (findValuesInRange tx (attributeKey (collectionName q) path)
             (rangeParams (wh ! i)
                (map_option (\<lambda>j. wh ! j) (findRangeFilter q path i (op \<notin> set GT_OPS)))))"
    using assms h
    by (cases "findRangeFilter q path i (op \<notin> set GT_OPS)")
       (simp_all add: getCandidateEntityIds_def getFilterSetForQuery_def Let_def
          performRangeScan_def image_iff)
next
  assume h: "getIdFilterFromQuery q = None
      \<and> (\<forall>f\<in>set (case q_where q of None \<Rightarrow> [] | Some w \<Rightarrow> w). \<not> isIndexable f)
      \<and> fst (getOrderSetForQuery tx q (o_schema options) (initialFulfilled q)) = Some ids"
  then have none: "findCandidateFilter q (o_schema options) = None"
    using selector_without_indexable by blast
  then show "fst (getCandidateEntityIds tx q options) = ids"
    using assms h
    by (auto simp: getCandidateEntityIds_def getFilterSetForQuery_def split: prod.splits)
  from h show "distinct ids"
    using getOrderSetForQuery_distinct by blast
next
  assume h: "getIdFilterFromQuery q = None
      \<and> (\<forall>f\<in>set (case q_where q of None \<Rightarrow> [] | Some w \<Rightarrow> w). \<not> isIndexable f)
      \<and> fst (getOrderSetForQuery tx q (o_schema options) (initialFulfilled q)) = None"
  then have none: "findCandidateFilter q (o_schema options) = None"
    using selector_without_indexable by blast
  then show "fst (getCandidateEntityIds tx q options)
      = map t_id (findByAVE tx [VStr ''_collection''] (VStr (collectionName q)))"
    using assms h getOrderSetForQuery_None[of tx q "o_schema options" "initialFulfilled q"]
    by (simp add: getCandidateEntityIds_def getFilterSetForQuery_def getCollectionIds_def)
qed

text \<open>The theorem on the log of \<^verbatim>\<open>users#1\<close>, who was named Alice, then Bob, then Alice
  again. The equality scan for the name Alice reads two triples and the range scan from
  \<^verbatim>\<open>A\<close> on reads three, all of \<^verbatim>\<open>users#1\<close>: the candidates have the id twice and
  three times. The order scan by name gives it once. For \<^verbatim>\<open>users#1\<close> inserted, deleted
  and inserted again, the scan of the collection reads two triples and gives the id
  twice.\<close>

theorem candidates_by_access_path_witness:
  "\<not> o_skipIndex defaultOptions
   \<and> fst (getCandidateEntityIds (logStore aliceLog) nameQuery defaultOptions)
       = map t_id (findByAVE (logStore aliceLog) [VStr ''users'', VStr ''name'']
                     (VStr ''Alice''))
   \<and> fst (getCandidateEntityIds (logStore aliceLog) nameQuery defaultOptions)
       = [''users#1'', ''users#1'']
   \<and> fst (getCandidateEntityIds (logStore aliceLog) fromAQuery defaultOptions)
       = [''users#1'', ''users#1'', ''users#1'']
   \<and> fst (getCandidateEntityIds (logStore aliceLog) byNameQuery defaultOptions)
       = [''users#1'']
   \<and> fst (getCandidateEntityIds (logStore reinsertedLog) usersQuery defaultOptions)
       = [''users#1'', ''users#1'']"
proof -
  have s: "\<not> o_skipIndex defaultOptions"
    by (simp add: defaultOptions_def)
  have e: "getIdFilterFromQuery nameQuery = None
      \<and> q_where nameQuery = Some [FilterStatement ''name'' OpEq (Lit (VStr ''Alice''))]
      \<and> 0 < length [FilterStatement ''name'' OpEq (Lit (VStr ''Alice''))]
      \<and> (\<forall>j<0. \<not> isIndexable ([FilterStatement ''name'' OpEq (Lit (VStr ''Alice''))] ! j))
      \<and> [FilterStatement ''name'' OpEq (Lit (VStr ''Alice''))] ! 0
          = FilterStatement ''name'' OpEq (Lit (VStr ''Alice''))"
    by (simp add: nameQuery_def getIdFilterFromQuery_def)
  have r: "getIdFilterFromQuery fromAQuery = None
      \<and> q_where fromAQuery = Some [FilterStatement ''name'' OpGte (Lit (VStr ''A''))]
      \<and> 0 < length [FilterStatement ''name'' OpGte (Lit (VStr ''A''))]
      \<and> (\<forall>j<0. \<not> isIndexable ([FilterStatement ''name'' OpGte (Lit (VStr ''A''))] ! j))
      \<and> [FilterStatement ''name'' OpGte (Lit (VStr ''A''))] ! 0
          = FilterStatement ''name'' OpGte (Lit (VStr ''A''))
      \<and> OpGte \<in> set RANGE_OPS"
    by (simp add: fromAQuery_def getIdFilterFromQuery_def ops_defs)
  have o: "getIdFilterFromQuery byNameQuery = None
      \<and> (\<forall>f\<in>set (case q_where byNameQuery of None \<Rightarrow> [] | Some w \<Rightarrow> w). \<not> isIndexable f)
      \<and> fst (getOrderSetForQuery (logStore aliceLog) byNameQuery (o_schema defaultOptions)
               (initialFulfilled byNameQuery)) = Some [''users#1'']"
    by (simp add: byNameQuery_def defaultOptions_def getIdFilterFromQuery_def
        getOrderSetForQuery_def logStore_def aliceLog_def
        nameTriple_def timestampCompare_def setAdd_def setDelete_def withinRange_def
        noConstraints_def Let_def)
  have k: "attributeKey (collectionName nameQuery) ''name'' = [VStr ''users'', VStr ''name'']"
    by (simp add: attributeKey_def nameQuery_def)
  have ce: "fst (getCandidateEntityIds (logStore aliceLog) nameQuery defaultOptions)
       = map t_id (findByAVE (logStore aliceLog) [VStr ''users'', VStr ''name'']
                     (VStr ''Alice''))"
    using e candidates_by_access_path[OF s, where q = nameQuery and tx = "logStore aliceLog"
        and wh = "[FilterStatement ''name'' OpEq (Lit (VStr ''Alice''))]" and i = 0
        and path = "''name''" and v = "Lit (VStr ''Alice'')"]
    by (simp add: k getCandidateDataTypeFromPath_def defaultOptions_def)
  have cr: "fst (getCandidateEntityIds (logStore aliceLog) fromAQuery defaultOptions)
       = map t_id
           (findValuesInRange (logStore aliceLog) (attributeKey (collectionName fromAQuery) ''name'')
              (rangeParams (FilterStatement ''name'' OpGte (Lit (VStr ''A'')))
                 (map_option (\<lambda>j. [FilterStatement ''name'' OpGte (Lit (VStr ''A''))] ! j)
                    (findRangeFilter fromAQuery ''name'' 0 (OpGte \<notin> set GT_OPS)))))"
    using r candidates_by_access_path[OF s, where q = fromAQuery and tx = "logStore aliceLog"
        and wh = "[FilterStatement ''name'' OpGte (Lit (VStr ''A''))]" and i = 0
        and path = "''name''" and v = "Lit (VStr ''A'')" and op = OpGte]
    by simp
  have co: "fst (getCandidateEntityIds (logStore aliceLog) byNameQuery defaultOptions)
       = [''users#1'']"
    using o candidates_by_access_path[OF s, where q = byNameQuery and tx = "logStore aliceLog"
        and ids = "[''users#1'']"]
    by simp
  have ve: "map t_id (findByAVE (logStore aliceLog) [VStr ''users'', VStr ''name'']
                     (VStr ''Alice''))
       = [''users#1'', ''users#1'']"
    by (simp add: logStore_def aliceLog_def nameTriple_def)
  have vr: "map t_id
           (findValuesInRange (logStore aliceLog) (attributeKey (collectionName fromAQuery) ''name'')
              (rangeParams (FilterStatement ''name'' OpGte (Lit (VStr ''A'')))
                 (map_option (\<lambda>j. [FilterStatement ''name'' OpGte (Lit (VStr ''A''))] ! j)
                    (findRangeFilter fromAQuery ''name'' 0 (OpGte \<notin> set GT_OPS)))))
       = [''users#1'', ''users#1'', ''users#1'']"
    by (simp add: logStore_def aliceLog_def nameTriple_def attributeKey_def fromAQuery_def
        rangeParams_def findRangeFilter_def ops_defs withinRange_def noConstraints_def Let_def)
  have a: "getIdFilterFromQuery usersQuery = None
      \<and> (\<forall>f\<in>set (case q_where usersQuery of None \<Rightarrow> [] | Some w \<Rightarrow> w). \<not> isIndexable f)
      \<and> fst (getOrderSetForQuery (logStore reinsertedLog) usersQuery (o_schema defaultOptions)
               (initialFulfilled usersQuery)) = None"
    by (simp add: usersQuery_def getIdFilterFromQuery_def getOrderSetForQuery_def)
  have ca: "fst (getCandidateEntityIds (logStore reinsertedLog) usersQuery defaultOptions)
       = map t_id (findByAVE (logStore reinsertedLog) [VStr ''_collection'']
                     (VStr (collectionName usersQuery)))"
    using a candidates_by_access_path[OF s, where q = usersQuery
        and tx = "logStore reinsertedLog"]
    by simp
  have va: "map t_id (findByAVE (logStore reinsertedLog) [VStr ''_collection'']
                     (VStr (collectionName usersQuery)))
       = [''users#1'', ''users#1'']"
    by (simp add: logStore_def reinsertedLog_def collectionTriple_def usersQuery_def)
  show ?thesis
    using s ce cr co ve vr ca va by simp
qed

text \<open>What a repeated candidate does further on in \<^verbatim>\<open>fetch\<close>: the stages run once
  per copy. In the cursor stage the second copy of the cursor's own entity passes a
  cursor that is not included.\<close>

lemma repeated_cursor_entity_kept:
  "filterAfterCursorRun encodeValue afterRank20Query initialCursorFlags
     [rankedPost ''1'' 10, rankedPost ''2'' 20, rankedPost ''2'' 20, rankedPost ''3'' 30]
   = Inr [rankedPost ''2'' 20, rankedPost ''3'' 30]"
  by (simp add: FilterAfterCursor_def afterRank20Query_def initialCursorFlags_def
      rankedPost_def appendCollectionToId_def Let_def)

subsection \<open>The filter stage\<close>

lemma applyFiltersLoop_passes:
  "applyFiltersLoop sat wh idxs = Inr True
   \<longleftrightarrow> (\<forall>i\<in>set idxs. sat (clauseAt wh i) = Inr True)"
  by (induction idxs) (auto split: sum.splits)

lemma applyFiltersLoop_satisfied_prefix:
  "\<forall>j\<in>set pre. sat (clauseAt wh j) = Inr True
   \<Longrightarrow> applyFiltersLoop sat wh (pre @ rest) = applyFiltersLoop sat wh rest"
  by (induction pre) auto

lemma applyFiltersLoop_first_unsatisfied:
  assumes "\<forall>j\<in>set pre. sat (clauseAt wh j) = Inr True"
    and "sat (clauseAt wh i) \<noteq> Inr True"
  shows "applyFiltersLoop sat wh (pre @ i # post)
         = (case sat (clauseAt wh i) of Inl err \<Rightarrow> Inl err | Inr b \<Rightarrow> Inr False)"
  using assms applyFiltersLoop_satisfied_prefix[of pre sat wh "i # post"]
  by (auto split: sum.splits)

text \<open>
  C1, as the code has it. \<^verbatim>\<open>ApplyFilters\<close> gets the query and no fulfilment tracker.
  An entity passes exactly when \<^verbatim>\<open>satisfiesFilter\<close> holds of every clause of the
  priority order; the first clause of the order that is not satisfied decides the
  result, whatever the clauses after it would give; and a clause the index selector
  marked fulfilled is among them: an entity that does not satisfy it does not pass.
\<close>

theorem ApplyFilters_evaluates_fulfilled:
  assumes "p_entity (snd item) = Some e"
    and "q_where q = Some wh"
  shows "(ApplyFilters getFilterPriorityOrder satisfiesFilter q item = Inr True
            \<longleftrightarrow> (\<forall>i\<in>set (getFilterPriorityOrder q).
                   satisfiesFilter q (snd item) (clauseAt wh i) = Inr True))
       \<and> (\<forall>pre i post.
             getFilterPriorityOrder q = pre @ i # post
             \<and> (\<forall>j\<in>set pre. satisfiesFilter q (snd item) (clauseAt wh j) = Inr True)
             \<and> satisfiesFilter q (snd item) (clauseAt wh i) \<noteq> Inr True
           \<longrightarrow> ApplyFilters getFilterPriorityOrder satisfiesFilter q item
                 = (case satisfiesFilter q (snd item) (clauseAt wh i) of
                      Inl err \<Rightarrow> Inl err
                    | Inr b \<Rightarrow> Inr False))
       \<and> (\<forall>i. i < length (f_where (snd (getCandidateEntityIds tx q options)))
             \<and> f_where (snd (getCandidateEntityIds tx q options)) ! i
             \<and> i \<in> set (getFilterPriorityOrder q)
             \<and> satisfiesFilter q (snd item) (clauseAt wh i) \<noteq> Inr True
           \<longrightarrow> ApplyFilters getFilterPriorityOrder satisfiesFilter q item \<noteq> Inr True)"
proof -
  let ?sat = "satisfiesFilter q (snd item)"
  have run: "ApplyFilters getFilterPriorityOrder satisfiesFilter q item
             = applyFiltersLoop ?sat wh (getFilterPriorityOrder q)"
    using assms by (simp add: ApplyFilters_def)
  have passes: "ApplyFilters getFilterPriorityOrder satisfiesFilter q item = Inr True
            \<longleftrightarrow> (\<forall>i\<in>set (getFilterPriorityOrder q). ?sat (clauseAt wh i) = Inr True)"
    unfolding run by (rule applyFiltersLoop_passes)
  have first: "\<forall>pre i post.
             getFilterPriorityOrder q = pre @ i # post
             \<and> (\<forall>j\<in>set pre. ?sat (clauseAt wh j) = Inr True)
             \<and> ?sat (clauseAt wh i) \<noteq> Inr True
           \<longrightarrow> ApplyFilters getFilterPriorityOrder satisfiesFilter q item
                 = (case ?sat (clauseAt wh i) of Inl err \<Rightarrow> Inl err | Inr b \<Rightarrow> Inr False)"
    unfolding run using applyFiltersLoop_first_unsatisfied[of _ ?sat wh] by simp
  show ?thesis
    using passes first by blast
qed

text \<open>The theorem on the query for the name Bob over the log of \<^verbatim>\<open>users#1\<close>, who was
  named Alice, then Bob, then Alice again: the triple of the name Bob is in the index,
  so the equality scan gives \<^verbatim>\<open>users#1\<close> and marks clause 0 fulfilled; the entity is
  named Alice, clause 0 is evaluated on it, and it does not pass.\<close>

theorem ApplyFilters_evaluates_fulfilled_witness:
  "p_entity (snd aliceItem) = Some [(''name'', TsLeaf (VStr ''Alice'') (3, ''a''))]
   \<and> q_where bobQuery = Some [FilterStatement ''name'' OpEq (Lit (VStr ''Bob''))]
   \<and> whereOrder bobQuery = [] @ 0 # []
   \<and> fst (getCandidateEntityIds (logStore aliceLog) bobQuery defaultOptions) = [''users#1'']
   \<and> f_where (snd (getCandidateEntityIds (logStore aliceLog) bobQuery defaultOptions)) ! 0
   \<and> leafEquals bobQuery (snd aliceItem)
        (clauseAt [FilterStatement ''name'' OpEq (Lit (VStr ''Bob''))] 0) = Inr False
   \<and> ApplyFilters whereOrder leafEquals bobQuery aliceItem = Inr False"
proof -
  have a: "p_entity (snd aliceItem) = Some [(''name'', TsLeaf (VStr ''Alice'') (3, ''a''))]"
    by (simp add: aliceItem_def)
  have b: "q_where bobQuery = Some [FilterStatement ''name'' OpEq (Lit (VStr ''Bob''))]"
    by (simp add: bobQuery_def)
  have c: "whereOrder bobQuery = [] @ 0 # []"
    by (simp add: whereOrder_def bobQuery_def)
  have d: "getCandidateEntityIds (logStore aliceLog) bobQuery defaultOptions
           = ([''users#1''], \<lparr> f_where = [True], f_order = [], f_after = True \<rparr>)"
    by (simp add: getCandidateEntityIds_def bobQuery_def defaultOptions_def logStore_def
        aliceLog_def nameTriple_def getIdFilterFromQuery_def getFilterSetForQuery_def
        findCandidateFilter_def getCandidateDataTypeFromPath_def ops_defs initialFulfilled_def
        performEqualityScan_def performValueEqualityScan_def attributeKey_def Let_def)
  have s: "leafEquals bobQuery (snd aliceItem)
             (clauseAt [FilterStatement ''name'' OpEq (Lit (VStr ''Bob''))] 0) = Inr False"
    by (simp add: leafEquals_def clauseAt_def aliceItem_def)
  have "ApplyFilters whereOrder leafEquals bobQuery aliceItem
        = (case leafEquals bobQuery (snd aliceItem)
                  (clauseAt [FilterStatement ''name'' OpEq (Lit (VStr ''Bob''))] 0) of
             Inl err \<Rightarrow> Inl err
           | Inr b \<Rightarrow> Inr False)"
    using ApplyFilters_evaluates_fulfilled[OF a b, of whereOrder leafEquals] c s
    by (metis (no_types, lifting) Inl_Inr_False empty_iff list.set(1) sum.inject(2))
  then show ?thesis
    using a b c d s by simp
qed

text \<open>C1 as stated fails. The equality scan for the name Bob finds \<^verbatim>\<open>users#1\<close> by a
  triple of the name it had before, and marks clause 0 fulfilled. Evaluating only the
  clauses that are not marked fulfilled, the entity, named Alice, would pass; the
  filter stage evaluates clause 0 and the entity does not pass.\<close>

theorem fulfilled_clause_evaluated_counterexample:
  "getCandidateEntityIds (logStore aliceLog) bobQuery defaultOptions
     = ([''users#1''], \<lparr> f_where = [True], f_order = [], f_after = True \<rparr>)
   \<and> ApplyFilters
         (\<lambda>q. filter (\<lambda>i. \<not> f_where (snd (getCandidateEntityIds (logStore aliceLog) q
                                            defaultOptions)) ! i) (whereOrder q))
         leafEquals bobQuery aliceItem = Inr True
   \<and> ApplyFilters whereOrder leafEquals bobQuery aliceItem = Inr False"
  by (simp add: getCandidateEntityIds_def bobQuery_def defaultOptions_def logStore_def
      aliceLog_def nameTriple_def getIdFilterFromQuery_def getFilterSetForQuery_def
      findCandidateFilter_def getCandidateDataTypeFromPath_def ops_defs initialFulfilled_def
      performEqualityScan_def performValueEqualityScan_def attributeKey_def Let_def
      ApplyFilters_def aliceItem_def whereOrder_def leafEquals_def clauseAt_def)

subsection \<open>The cursor stage\<close>

text \<open>With the cursor not included, the item on which \<^verbatim>\<open>cursorValuePassed\<close> is set
  is itself dropped: the predicate returns \<^verbatim>\<open>inclusive && ...\<close> for it.\<close>

lemma FilterAfterCursor_first_passed_dropped:
  assumes "q_after q = Some ((cursorVal, cursorId), False)"
    and "q_order q = Some ((orderAttr, ASC) # others)"
    and "\<not> cursorValuePassed flags" and "\<not> (cursorValueReached flags \<and> idReached flags)"
    and "p_entity (snd item) = Some e"
    and "map_of e orderAttr = Some (TsLeaf v ts)"
    and "enc (Value cursorVal) < enc (Value v)"
  shows "FilterAfterCursor enc q flags item = (Inr False, flags\<lparr> cursorValuePassed := True \<rparr>)"
  using assms by (simp add: FilterAfterCursor_def Let_def)

text \<open>The cursor's own entity is dropped when the cursor is not included.\<close>

lemma FilterAfterCursor_cursor_entity_dropped:
  assumes "q_after q = Some ((cursorVal, cursorId), False)"
    and "q_order q = Some ((orderAttr, dir) # others)"
    and "\<not> cursorValuePassed flags" and "\<not> (cursorValueReached flags \<and> idReached flags)"
    and "p_entity (snd item) = Some e"
    and "map_of e orderAttr = Some (TsLeaf cursorVal ts)"
    and "appendCollectionToId (collectionName q) (fst item) = cursorId"
  shows "fst (FilterAfterCursor enc q flags item) = Inr False"
  using assms by (simp add: FilterAfterCursor_def Let_def)

text \<open>The lemma on the cursor's own post.\<close>

lemma FilterAfterCursor_cursor_entity_dropped_witness:
  "q_after afterRank20Query = Some ((VNum 20, ''posts#2''), False)
   \<and> appendCollectionToId (collectionName afterRank20Query) (fst (rankedPost ''2'' 20)) = ''posts#2''
   \<and> fst (FilterAfterCursor encodeValue afterRank20Query initialCursorFlags (rankedPost ''2'' 20))
       = Inr False"
proof -
  have a: "q_after afterRank20Query = Some ((VNum 20, ''posts#2''), False)"
    by (simp add: afterRank20Query_def)
  have o: "q_order afterRank20Query = Some ((''rank'', ASC) # [])"
    by (simp add: afterRank20Query_def)
  have p: "\<not> cursorValuePassed initialCursorFlags"
    by (simp add: initialCursorFlags_def)
  have r: "\<not> (cursorValueReached initialCursorFlags \<and> idReached initialCursorFlags)"
    by (simp add: initialCursorFlags_def)
  have e: "p_entity (snd (rankedPost ''2'' 20))
           = Some [(''id'', TsLeaf (VStr ''2'') (1, ''a'')), (''rank'', TsLeaf (VNum 20) (1, ''a''))]"
    by (simp add: rankedPost_def)
  have m: "map_of [(''id'', TsLeaf (VStr ''2'') (1, ''a'')), (''rank'', TsLeaf (VNum 20) (1, ''a''))]
             ''rank'' = Some (TsLeaf (VNum 20) (1, ''a''))"
    by simp
  have i: "appendCollectionToId (collectionName afterRank20Query) (fst (rankedPost ''2'' 20))
           = ''posts#2''"
    by (simp add: appendCollectionToId_def afterRank20Query_def rankedPost_def)
  show ?thesis
    using FilterAfterCursor_cursor_entity_dropped[OF a o p r e m i, of encodeValue] a i by simp
qed

text \<open>
  C2 at the failing input. The query has an equality statement, so the candidates come
  from the equality scan, \<^verbatim>\<open>after\<close> is not fulfilled by the index and \<^verbatim>\<open>fetch\<close>
  applies the cursor stage. The stream is sorted by rank and holds the posts 1, 3 and 4
  with ranks 10, 30 and 40; the cursor is rank 20 of \<^verbatim>\<open>posts#2\<close>, which is not in the
  stream, and is not included. Posts 3 and 4 sort strictly after the cursor, but the
  stage lets only post 4 through.
\<close>

theorem after_cursor_drops_first_passed:
  "(\<forall>tx. \<not> f_after (snd (getCandidateEntityIds tx afterRank20Query defaultOptions)))
   \<and> filterAfterCursorRun encodeValue afterRank20Query initialCursorFlags
         [rankedPost ''1'' 10, rankedPost ''3'' 30, rankedPost ''4'' 40]
       = Inr [rankedPost ''4'' 40]"
  by (simp add: FilterAfterCursor_def afterRank20Query_def initialCursorFlags_def
      rankedPost_def appendCollectionToId_def getCandidateEntityIds_def defaultOptions_def
      getIdFilterFromQuery_def getFilterSetForQuery_def findCandidateFilter_def ops_defs
      getCandidateDataTypeFromPath_def initialFulfilled_def Let_def)

subsection \<open>Sorting\<close>








subsection \<open>Operator reversal\<close>

text \<open>
  C9, as the code has it. For a statement whose value is a referential variable,
  \<^verbatim>\<open>reverseRelationFilter\<close> raises nothing: it returns the reversed statement, whose
  operator is what the table gives, \<^verbatim>\<open>undefined\<close> exactly for \<^verbatim>\<open>like\<close>,
  \<^verbatim>\<open>nlike\<close> and \<^verbatim>\<open>isDefined\<close>.
\<close>

theorem reverseRelationFilter_no_inverse:
  assumes "isValueReferentialVariable v"
  shows "reverseRelationFilter (path, op, v)
           = Inr (snd (getVariableComponents (queryValueText v)),
                  REVERSE_OPERATOR_MAPPINGS op,
                  Variable (createVariable (fst (getVariableComponents (queryValueText v))) path))
       \<and> (REVERSE_OPERATOR_MAPPINGS op = None \<longleftrightarrow> op \<in> {OpLike, OpNlike, OpIsDefined})"
  using assms by (cases op) (simp_all add: reverseRelationFilter_def split: prod.splits)

text \<open>The theorem on a \<^verbatim>\<open>nlike\<close> statement.\<close>

theorem reverseRelationFilter_no_inverse_witness:
  "isValueReferentialVariable (Variable ''$1.name'')
   \<and> reverseRelationFilter (''title'', OpNlike, Variable ''$1.name'')
       = Inr (''name'', None, Variable ''$1.title'')"
proof -
  have r: "isValueReferentialVariable (Variable ''$1.name'')"
    by (simp add: getVariableComponents_def parseInt_def isDigit_def)
  show ?thesis
    using reverseRelationFilter_no_inverse[OF r, of "''title''" OpNlike] r
    by (simp add: getVariableComponents_def createVariable_def)
qed

text \<open>C9 as stated fails: reversing a \<^verbatim>\<open>like\<close> statement on a referential variable
  returns a statement and raises no \<^verbatim>\<open>ReverseOperatorError\<close>.\<close>

theorem reverse_like_raises_nothing_counterexample:
  "isValueReferentialVariable (Variable ''$1.name'')
   \<and> REVERSE_OPERATOR_MAPPINGS OpLike = None
   \<and> reverseRelationFilter (''title'', OpLike, Variable ''$1.name'')
       = Inr (''name'', None, Variable ''$1.title'')
   \<and> reverseRelationFilter (''title'', OpLike, Variable ''$1.name'') \<noteq> Inl ReverseOperatorError"
  by (simp add: reverseRelationFilter_def getVariableComponents_def parseInt_def isDigit_def
      createVariable_def)

subsection \<open>The stack of \<^verbatim>\<open>loadSubquery\<close>\<close>

text \<open>When the call returns a result, and every \<^verbatim>\<open>fetch\<close> leaves the stack as long as
  it found it, the stack is as long on exit as on entry.\<close>

lemma loadSubquery_success_balanced:
  assumes "loadSubquery deps parentQuery subquery cardinality ctx options e = (Inr r, ctx')"
    and "\<And>q c. length (queriedDataStack (snd (fetch deps q c options)))
                = length (queriedDataStack c)"
  shows "length (queriedDataStack ctx') = length (queriedDataStack ctx)"
proof -
  from assms(1) obtain entityVars where
    v: "extractSubqueryVarsFromEntity deps e (o_schema options) (collectionName parentQuery)
          = Inr entityVars"
    by (auto simp: loadSubquery_def split: sum.splits)
  let ?ctx1 = "ctx\<lparr>queriedDataStack := queriedDataStack ctx @ [entityVars]\<rparr>"
  have "\<exists>q fr ctx2. fetch deps q ?ctx1 options = (Inr fr, ctx2)
            \<and> ctx' = ctx2\<lparr>queriedDataStack := butlast (queriedDataStack ctx2)\<rparr>"
    using assms(1) v
    by (cases cardinality)
       (auto simp: loadSubquery_def fetchOne_def Let_def split: sum.splits prod.splits)
  then obtain q fr ctx2 where
    f: "fetch deps q ?ctx1 options = (Inr fr, ctx2)"
       "ctx' = ctx2\<lparr>queriedDataStack := butlast (queriedDataStack ctx2)\<rparr>"
    by blast
  from f(1) assms(2)[of q ?ctx1]
  have "length (queriedDataStack ctx2) = length (queriedDataStack ctx) + 1" by simp
  with f(2) show ?thesis by simp
qed

text \<open>The lemma with a \<^verbatim>\<open>fetch\<close> that finds nothing.\<close>

lemma loadSubquery_success_balanced_witness:
  "loadSubquery emptyFetchDeps postsQuery commentsQuery Many initialFetchExecutionContext
     defaultOptions (TimestampedEntity [])
   = (Inr \<lparr> sq_results = ManyResults [], sq_triples = [] \<rparr>, initialFetchExecutionContext)
   \<and> length (queriedDataStack
               (snd (loadSubquery emptyFetchDeps postsQuery commentsQuery Many
                       initialFetchExecutionContext defaultOptions (TimestampedEntity []))))
       = length (queriedDataStack initialFetchExecutionContext)"
proof -
  have r: "loadSubquery emptyFetchDeps postsQuery commentsQuery Many initialFetchExecutionContext
             defaultOptions (TimestampedEntity [])
           = (Inr \<lparr> sq_results = ManyResults [], sq_triples = [] \<rparr>,
              initialFetchExecutionContext)"
    by (simp add: loadSubquery_def emptyFetchDeps_def failingFetchDeps_def
        extractSubqueryVarsFromEntity_def defaultOptions_def initialFetchExecutionContext_def)
  have f: "\<And>q c. length (queriedDataStack (snd (fetch emptyFetchDeps q c defaultOptions)))
              = length (queriedDataStack c)"
    by (simp add: emptyFetchDeps_def)
  show ?thesis
    using loadSubquery_success_balanced[OF r f] r by simp
qed

text \<open>
  C5 at the failing path. When the inner fetch raises (and leaves the stack as it found
  it), \<^verbatim>\<open>loadSubquery\<close> raises the same error without the pop: the stack is one frame
  longer on exit than on entry.
\<close>

theorem loadSubquery_failure_leaves_frame:
  assumes "extractSubqueryVarsFromEntity deps e (o_schema options) (collectionName parentQuery)
             = Inr entityVars"
    and "prepareQuery deps
           (setVars subquery
              (Some (objSpread (case q_vars parentQuery of None \<Rightarrow> [] | Some vs \<Rightarrow> vs)
                               (case q_vars subquery of None \<Rightarrow> [] | Some vs \<Rightarrow> vs))))
           (o_schema options) (o_skipRules options) = Inr prepared"
    and "fetch deps (if cardinality = One then setLimit prepared (Some 1) else prepared)
           (ctx\<lparr> queriedDataStack := queriedDataStack ctx @ [entityVars] \<rparr>) options
         = (Inl err, ctx')"
    and "length (queriedDataStack ctx') = length (queriedDataStack ctx @ [entityVars])"
  shows "fst (loadSubquery deps parentQuery subquery cardinality ctx options e) = Inl err
       \<and> length (queriedDataStack
                   (snd (loadSubquery deps parentQuery subquery cardinality ctx options e)))
           = length (queriedDataStack ctx) + 1"
  using assms
  by (cases cardinality)
     (auto simp: loadSubquery_def fetchOne_def Let_def split: sum.splits prod.splits)

text \<open>The theorem on the sub-query for the comments of a post whose variable goes through a
  relation of cardinality many: the inner fetch raises while it loads the variable, and
  the frame of the post stays on the stack.\<close>

theorem loadSubquery_failure_leaves_frame_witness:
  "fst (loadSubquery variableStageDeps postsQuery commentsOfPostQuery Many
          initialFetchExecutionContext blogOptions (TimestampedEntity []))
     = Inl (TriplitError cardinalityManyMessage)
   \<and> length (queriedDataStack
               (snd (loadSubquery variableStageDeps postsQuery commentsOfPostQuery Many
                       initialFetchExecutionContext blogOptions (TimestampedEntity []))))
       = length (queriedDataStack initialFetchExecutionContext) + 1"
proof -
  let ?frame = "[(''title'', PUndefined), (''_collection'', PVal (VStr ''posts''))]"
  let ?prepared =
    "Query ''comments'' (Some [FilterStatement ''text'' OpEq (Variable ''$1.comments.text'')])
       None None None None None (Some [])"
  let ?ctx1 = "initialFetchExecutionContext
      \<lparr> queriedDataStack := queriedDataStack initialFetchExecutionContext @ [?frame] \<rparr>"
  have a: "extractSubqueryVarsFromEntity variableStageDeps (TimestampedEntity [])
             (o_schema blogOptions) (collectionName postsQuery) = Inr ?frame"
    by (simp add: extractSubqueryVarsFromEntity_def blogOptions_def blogSchema_def
        postsQuery_def convertEntityToJS_def variableStageDeps_def failingFetchDeps_def
        objSpread_def objDelete_def)
  have b: "prepareQuery variableStageDeps
           (setVars commentsOfPostQuery
              (Some (objSpread (case q_vars postsQuery of None \<Rightarrow> [] | Some vs \<Rightarrow> vs)
                               (case q_vars commentsOfPostQuery of None \<Rightarrow> [] | Some vs \<Rightarrow> vs))))
           (o_schema blogOptions) (o_skipRules blogOptions) = Inr ?prepared"
    by (simp add: variableStageDeps_def failingFetchDeps_def commentsOfPostQuery_def
        postsQuery_def objSpread_def)
  have c: "fetch variableStageDeps (if Many = One then setLimit ?prepared (Some 1) else ?prepared)
             ?ctx1 blogOptions
           = (Inl (TriplitError cardinalityManyMessage), ?ctx1)"
    by (simp add: variableStageDeps_def variableStageFetch_def
        loadRelationshipsIntoContextFromVariable_def blogOptions_def
        getVariableComponents_def parseInt_def isDigit_def digitsValue_def
        initialFetchExecutionContext_def frameCollection_def getRelationsFromIdentifier_def
        blogSchema_def schemaStep_def propertiesOf_def commentsQuery_def)
  have d: "length (queriedDataStack ?ctx1)
           = length (queriedDataStack initialFetchExecutionContext @ [?frame])"
    by simp
  show ?thesis
    using loadSubquery_failure_leaves_frame[OF a b c d] by simp
qed

subsection \<open>Relations in variables\<close>

text \<open>
  C8, as the code has it. For a variable of an ancestor scope \<^verbatim>\<open>N\<close> whose frame is
  on the stack, when a schema is given and the first relation on the variable's path
  (from the collection of that frame) has a cardinality other than \<^verbatim>\<open>one\<close>, the load
  raises \<^verbatim>\<open>TriplitError\<close> with the message
  \<^verbatim>\<open>Cannot load variables with cardinality "many"\<close>, which is no
  \<^verbatim>\<open>VariableRelationCardinalityError\<close>, and leaves the context as it was. When no schema
  is given, and when the scope of the variable is no number, the load raises nothing
  and leaves the context as it was.
\<close>

theorem loadRelationships_root_many:
  assumes "getVariableComponents variable = (scope, key)"
  shows "(o_schema options = Some schema
            \<and> parseInt (case scope of None \<Rightarrow> [] | Some s \<Rightarrow> s) = Some n
            \<and> 0 < n \<and> n \<le> int (length (queriedDataStack ctx))
            \<and> getRelationsFromIdentifier key schema
                 (frameCollection
                    (queriedDataStack ctx ! nat (int (length (queriedDataStack ctx)) - n)))
               = (path, rq, c) # others
            \<and> c \<noteq> One
          \<longrightarrow> loadRelationshipsIntoContextFromVariable deps variable ctx options
                = (Inl (TriplitError cardinalityManyMessage), ctx)
              \<and> TriplitError cardinalityManyMessage \<noteq> VariableRelationCardinalityError)
       \<and> (o_schema options = None
          \<longrightarrow> loadRelationshipsIntoContextFromVariable deps variable ctx options
                = (Inr (), ctx))
       \<and> (parseInt (case scope of None \<Rightarrow> [] | Some s \<Rightarrow> s) = None
          \<longrightarrow> loadRelationshipsIntoContextFromVariable deps variable ctx options
                = (Inr (), ctx))"
proof (intro conjI impI)
  assume "o_schema options = Some schema
      \<and> parseInt (case scope of None \<Rightarrow> [] | Some s \<Rightarrow> s) = Some n
      \<and> 0 < n \<and> n \<le> int (length (queriedDataStack ctx))
      \<and> getRelationsFromIdentifier key schema
           (frameCollection
              (queriedDataStack ctx ! nat (int (length (queriedDataStack ctx)) - n)))
         = (path, rq, c) # others
      \<and> c \<noteq> One"
  then show "loadRelationshipsIntoContextFromVariable deps variable ctx options
      = (Inl (TriplitError cardinalityManyMessage), ctx)"
    using assms by (simp add: loadRelationshipsIntoContextFromVariable_def Let_def)
next
  show "TriplitError cardinalityManyMessage \<noteq> VariableRelationCardinalityError"
    by simp
next
  assume "o_schema options = None"
  then show "loadRelationshipsIntoContextFromVariable deps variable ctx options = (Inr (), ctx)"
    by (simp add: loadRelationshipsIntoContextFromVariable_def)
next
  assume "parseInt (case scope of None \<Rightarrow> [] | Some s \<Rightarrow> s) = None"
  then show "loadRelationshipsIntoContextFromVariable deps variable ctx options = (Inr (), ctx)"
    using assms
    by (cases "o_schema options") (simp_all add: loadRelationshipsIntoContextFromVariable_def)
qed

text \<open>The theorem on the variable \<^verbatim>\<open>$1.comments.text\<close> with the frame of a post, with
  the schema and without it, and on the variable \<^verbatim>\<open>$session.comments.text\<close>, whose scope
  is no number.\<close>

theorem loadRelationships_root_many_witness:
  "loadRelationshipsIntoContextFromVariable failingFetchDeps ''$1.comments.text''
     postFrameContext blogOptions
   = (Inl (TriplitError cardinalityManyMessage), postFrameContext)
   \<and> loadRelationshipsIntoContextFromVariable failingFetchDeps ''$1.comments.text''
       postFrameContext defaultOptions
     = (Inr (), postFrameContext)
   \<and> loadRelationshipsIntoContextFromVariable failingFetchDeps ''$session.comments.text''
       postFrameContext blogOptions
     = (Inr (), postFrameContext)"
proof -
  have b: "getVariableComponents ''$1.comments.text'' = (Some ''1'', ''comments.text'')"
    by (simp add: getVariableComponents_def)
  have h: "o_schema blogOptions = Some blogSchema
      \<and> parseInt (case Some ''1'' of None \<Rightarrow> [] | Some s \<Rightarrow> s) = Some 1
      \<and> (0::int) < 1 \<and> 1 \<le> int (length (queriedDataStack postFrameContext))
      \<and> getRelationsFromIdentifier ''comments.text'' blogSchema
           (frameCollection (queriedDataStack postFrameContext
              ! nat (int (length (queriedDataStack postFrameContext)) - 1)))
         = (''comments'', commentsQuery, Many) # []
      \<and> Many \<noteq> One"
    by (simp add: blogOptions_def parseInt_def isDigit_def digitsValue_def postFrameContext_def
        frameCollection_def getRelationsFromIdentifier_def blogSchema_def schemaStep_def
        propertiesOf_def commentsQuery_def)
  have n: "o_schema defaultOptions = None"
    by (simp add: defaultOptions_def)
  have s: "getVariableComponents ''$session.comments.text''
           = (Some ''session'', ''comments.text'')"
    by (simp add: getVariableComponents_def)
  have p: "parseInt (case Some ''session'' of None \<Rightarrow> [] | Some s \<Rightarrow> s) = None"
    by (simp add: parseInt_def isDigit_def)
  show ?thesis
    using h n p
      loadRelationships_root_many[OF b, where options = blogOptions and schema = blogSchema
        and n = 1 and ctx = postFrameContext and path = "''comments''" and rq = commentsQuery
        and c = Many and others = "[]" and deps = failingFetchDeps]
      loadRelationships_root_many[OF b, where options = defaultOptions
        and ctx = postFrameContext and deps = failingFetchDeps]
      loadRelationships_root_many[OF s, where options = blogOptions
        and ctx = postFrameContext and deps = failingFetchDeps]
    by simp
qed

text \<open>C8 as stated fails. The path of the variable \<^verbatim>\<open>$1.comments.text\<close> goes through the
  relation \<^verbatim>\<open>comments\<close> of cardinality many: with the schema the error raised is a
  \<^verbatim>\<open>TriplitError\<close> and no \<^verbatim>\<open>VariableRelationCardinalityError\<close>, and without a schema
  in the options nothing is raised.\<close>

theorem variable_through_many_counterexample:
  "getRelationsFromIdentifier ''comments.text'' blogSchema (Some ''posts'')
     = [(''comments'', commentsQuery, Many)]
   \<and> fst (loadRelationshipsIntoContextFromVariable failingFetchDeps ''$1.comments.text''
             postFrameContext blogOptions) = Inl (TriplitError cardinalityManyMessage)
   \<and> fst (loadRelationshipsIntoContextFromVariable failingFetchDeps ''$1.comments.text''
             postFrameContext blogOptions) \<noteq> Inl VariableRelationCardinalityError
   \<and> fst (loadRelationshipsIntoContextFromVariable failingFetchDeps ''$1.comments.text''
             postFrameContext defaultOptions) = Inr ()"
  by (simp add: loadRelationshipsIntoContextFromVariable_def blogOptions_def defaultOptions_def
      getVariableComponents_def parseInt_def isDigit_def digitsValue_def postFrameContext_def
      frameCollection_def getRelationsFromIdentifier_def blogSchema_def schemaStep_def
      propertiesOf_def commentsQuery_def)

subsection \<open>The state vector before new triples\<close>














subsection \<open>The subscription\<close>

lemma updatedEntities_empty:
  assumes "\<forall>w\<in>set storeWrites. \<forall>t\<in>set (inserts (snd w) @ deletes (snd w)).
             fst (splitIdParts (t_id t)) \<noteq> collectionName q"
  shows "updatedEntitiesForQuery q storeWrites = []"
proof -
  have "filter (\<lambda>parts. fst parts = collectionName q)
          (map (\<lambda>t. splitIdParts (t_id t))
             (concat (map (\<lambda>w. inserts (snd w)) storeWrites)
                @ concat (map (\<lambda>w. deletes (snd w)) storeWrites))) = []"
    using assms by (auto simp: filter_empty_conv)
  then show ?thesis
    by (simp add: updatedEntitiesForQuery_def)
qed

text \<open>
  C10. For a query that is not fetched anew on every write (no sub-query filter, no
  include, no order over a relation), a write batch none of whose inserts and deletes
  has an id of the query's collection leaves the subscription as it was: the results
  and the triples it keeps are the same, and neither \<^verbatim>\<open>onResults\<close> nor
  \<^verbatim>\<open>onError\<close> is called.
\<close>

theorem onWrite_other_collections_no_effect:
  assumes "\<not> isNestedQuery q wh options"
    and "\<forall>w\<in>set storeWrites. \<forall>t\<in>set (inserts (snd w) @ deletes (snd w)).
           fst (splitIdParts (t_id t)) \<noteq> collectionName q"
  shows "onWrite enc deps tx q wh options st storeWrites = st"
  using assms(1) updatedEntities_empty[OF assms(2)]
  by (simp add: onWrite_def handlerBody_def)

text \<open>The theorem on a subscription on posts and a write of a triple of \<^verbatim>\<open>users#1\<close>.\<close>

theorem onWrite_other_collections_no_effect_witness:
  "\<not> isNestedQuery rankOrderQuery None defaultOptions
   \<and> fst (splitIdParts (t_id (nameTriple ''Alice'' 5 ''a''))) = ''users''
   \<and> collectionName rankOrderQuery = ''posts''
   \<and> onWrite encodeValue failingFetchDeps (logStore aliceLog) rankOrderQuery None defaultOptions
        onePostSubscription usersWrite = onePostSubscription
   \<and> onResultsCalls (onWrite encodeValue failingFetchDeps (logStore aliceLog) rankOrderQuery None
        defaultOptions onePostSubscription usersWrite) = []"
proof -
  have n: "\<not> isNestedQuery rankOrderQuery None defaultOptions"
    by (simp add: isNestedQuery_def rankOrderQuery_def defaultOptions_def)
  have w: "\<forall>w\<in>set usersWrite. \<forall>t\<in>set (inserts (snd w) @ deletes (snd w)).
           fst (splitIdParts (t_id t)) \<noteq> collectionName rankOrderQuery"
    by (simp add: usersWrite_def nameTriple_def splitIdParts_def rankOrderQuery_def)
  have s: "fst (splitIdParts (t_id (nameTriple ''Alice'' 5 ''a''))) = ''users''"
    by (simp add: nameTriple_def splitIdParts_def)
  show ?thesis
    using onWrite_other_collections_no_effect[OF n w, of encodeValue failingFetchDeps
        "logStore aliceLog" onePostSubscription] n s
    by (simp add: rankOrderQuery_def onePostSubscription_def)
qed


end
